theory Spec2Isabelle
  imports Complex_Main
begin

section \<open>The dipole-correlation FCI solver of \<open>pyscf/fci/direct_dip_corr.py\<close>\<close>

text \<open>
  The development embeds the control flow of \<open>kernel_ms1\<close>, \<open>kernel_lanczos\<close>,
  \<open>FCIBase.kernel\<close> and \<open>FCIBase.energy\<close>. Python floats are exact reals and complex
  floats exact complex numbers: the rounding of the doubles is not modelled, so nothing
  below speaks about the last bits of a computed number. Where the source's IEEE
  arithmetic goes on with an infinity or a NaN (a division by a zero norm; numpy warns
  and does not raise) no real number stands for the value, and the model stops with
  the marker \<open>NonFinite\<close>. Printing and the energies that are only printed are left out.

  The collaborators that are not part of the file (the Lanczos tridiagonaliser of
  \<open>pyscf.lib\<close>, scipy's eigensolvers and matrix exponential, the Davidson solver, the
  native contraction kernels) are fields of an environment record: every theorem below
  holds for all of them.
\<close>

subsection \<open>Errors and sequencing\<close>

datatype pyerr =
    ValueError | ZeroDivisionError | IndexError | AttributeError
  | NotImplementedError | TypeError | AssertionError | UnboundLocalError
  | OverflowError | NonFinite

definition bindE :: "pyerr + 'a \<Rightarrow> ('a \<Rightarrow> pyerr + 'b) \<Rightarrow> pyerr + 'b" where
  "bindE r f = (case r of Inl e \<Rightarrow> Inl e | Inr x \<Rightarrow> f x)"

text \<open>A \<open>for\<close> loop over a list of indices whose body may raise.\<close>

fun foldE :: "('a \<Rightarrow> 's \<Rightarrow> pyerr + 's) \<Rightarrow> 'a list \<Rightarrow> 's \<Rightarrow> pyerr + 's" where
  "foldE f [] s = Inr s"
| "foldE f (x # xs) s = bindE (f x s) (foldE f xs)"

subsection \<open>Arrays\<close>

type_synonym rvec = "real list"
type_synonym cvec = "complex list"
type_synonym rmat = "real list list"
type_synonym cmat = "complex list list"

definition nth_e :: "'a list \<Rightarrow> nat \<Rightarrow> pyerr + 'a" where
  "nth_e xs i = (if i < length xs then Inr (xs ! i) else Inl IndexError)"

text \<open>\<open>numpy.linalg.norm\<close> of a one-dimensional array.\<close>

definition norm_r :: "rvec \<Rightarrow> real" where
  "norm_r v = sqrt (sum_list (map (\<lambda>x. x\<^sup>2) v))"

definition norm_c :: "cvec \<Rightarrow> real" where
  "norm_c v = sqrt (sum_list (map (\<lambda>z. (cmod z)\<^sup>2) v))"

text \<open>\<open>numpy.dot\<close> of two one-dimensional arrays: no conjugation, shapes must agree.\<close>

definition dot_c :: "cvec \<Rightarrow> cvec \<Rightarrow> pyerr + complex" where
  "dot_c x y =
     (if length x = length y then Inr (sum_list (map2 (\<lambda>a b. a * b) x y))
      else Inl ValueError)"

text \<open>\<open>numpy.einsum('ji,i->j', U, d)\<close>: every row of \<open>U\<close> against \<open>d\<close>.\<close>

definition matvec :: "cmat \<Rightarrow> cvec \<Rightarrow> pyerr + cvec" where
  "matvec M x =
     (if list_all (\<lambda>row. length row = length x) M
      then Inr (map (\<lambda>row. sum_list (map2 (\<lambda>a b. a * b) row x)) M)
      else Inl ValueError)"

text \<open>
  \<open>numpy.einsum('ij,j->i', A, mu)\<close> on the list \<open>A\<close> of basis vectors. Its value is
  overwritten at once in the source; what stays is that it raises on an empty or
  ill-shaped \<open>A\<close>.
\<close>

definition einsum_ij_j :: "cvec list \<Rightarrow> cvec \<Rightarrow> pyerr + cvec" where
  "einsum_ij_j A x =
     (if A \<noteq> [] \<and> list_all (\<lambda>a. length a = length x) A
      then Inr (map (\<lambda>a. sum_list (map2 (\<lambda>p q. p * q) a x)) A)
      else Inl ValueError)"

text \<open>\<open>fcivec += A_tmp * dk\<close> on arrays of one shape.\<close>

definition axpy :: "cvec \<Rightarrow> cvec \<Rightarrow> complex \<Rightarrow> pyerr + cvec" where
  "axpy acc a dk =
     (if length a = length acc then Inr (map2 (\<lambda>p q. p + q * dk) acc a)
      else Inl ValueError)"

text \<open>The slice \<open>xs[0:k]\<close>; a negative stop counts from the end.\<close>

definition slice_to :: "'a list \<Rightarrow> int \<Rightarrow> 'a list" where
  "slice_to xs k = (if 0 \<le> k then take (nat k) xs else take (nat (int (length xs) + k)) xs)"

definition zeros2 :: "nat \<Rightarrow> nat \<Rightarrow> 'a::zero list list" where
  "zeros2 r c = replicate r (replicate c 0)"

text \<open>The assignment \<open>M[p,q] = v\<close>, for indices in range.\<close>

definition set2 :: "'a list list \<Rightarrow> nat \<Rightarrow> nat \<Rightarrow> 'a \<Rightarrow> 'a list list" where
  "set2 M p q v = M[p := (M ! p)[q := v]]"

definition column :: "'a list list \<Rightarrow> nat \<Rightarrow> pyerr + 'a list" where
  "column M j =
     (if list_all (\<lambda>row. j < length row) M then Inr (map (\<lambda>row. row ! j) M)
      else Inl IndexError)"

subsection \<open>The ReducedHamiltonian, lines 810--818 and 881--888\<close>

text \<open>
  \<^verbatim>\<open>
  Ht = numpy.zeros((len_tdiag,len_tdiag))
  for p in range(len_tdiag):
      Ht[p,p] = alpha[p,0]
      if p < (len_tdiag-2):
         Ht[p,p+1] = beta[p,0]
         Ht[p+1,p] = beta[p,0]          # beta[p,0].conj() after the first pass
  \<close>
  \<open>alpha\<close> and \<open>beta\<close> stand for the columns \<open>alpha[:,0]\<close> and \<open>beta[:,0]\<close>.
\<close>

definition Ht_body :: "('a \<Rightarrow> 'a) \<Rightarrow> 'a list \<Rightarrow> 'a list \<Rightarrow> nat \<Rightarrow> nat \<Rightarrow> 'a list list
    \<Rightarrow> pyerr + 'a list list" where
  "Ht_body cj alpha beta len_tdiag p Ht =
     bindE (nth_e alpha p) (\<lambda>a.
       let Ht1 = set2 Ht p p a in
       if int p < int len_tdiag - 2
       then bindE (nth_e beta p) (\<lambda>b. Inr (set2 (set2 Ht1 p (p + 1) b) (p + 1) p (cj b)))
       else Inr Ht1)"

definition build_Ht_first :: "rvec \<Rightarrow> rvec \<Rightarrow> pyerr + rmat" where
  "build_Ht_first alpha beta =
     (let len_tdiag = length alpha in
      foldE (Ht_body (\<lambda>b. b) alpha beta len_tdiag) [0..<len_tdiag] (zeros2 len_tdiag len_tdiag))"

definition build_Ht_restart :: "cvec \<Rightarrow> cvec \<Rightarrow> pyerr + cmat" where
  "build_Ht_restart alpha beta =
     (let len_tdiag = length alpha in
      foldE (Ht_body cnj alpha beta len_tdiag) [0..<len_tdiag] (zeros2 len_tdiag len_tdiag))"

subsection \<open>The adaptive time step, lines 822--828\<close>

text \<open>
  \<^verbatim>\<open>
  def time_limit(T, v, thr, lanczos):
      lp = numpy.power(v, lanczos-1)
      vTdag = lp*T[:, lanczos-1].conj()
      nrm = numpy.linalg.norm(vTdag)
      ratio = math.factorial(lanczos-1)/nrm
      tmax = pow(ratio, 1.0/(lanczos-1))*pow(thr,0.5/(lanczos-1))
      return tmax
  \<close>
  With \<open>lanczos = 0\<close> the column index is \<open>-1\<close>: an empty \<open>T\<close> raises IndexError, and
  otherwise \<open>math.factorial(-1)\<close> raises ValueError. \<open>math.factorial(lanczos-1)\<close> is a
  Python integer, and its division by the numpy float \<open>nrm\<close> raises OverflowError once
  it is beyond the largest double, which is from \<open>171!\<close> on. With \<open>lanczos = 1\<close> the
  exponent \<open>1.0/(lanczos-1)\<close> raises ZeroDivisionError.
  scipy returns \<open>v\<close> of shape \<open>(m)\<close> and \<open>T\<close> of shape \<open>(m,m)\<close>, so the product of
  \<open>lp\<close> and the column is over equal lengths; other lengths are a ValueError here.

  Two conventions of the exact numbers. A zero \<open>nrm\<close> makes \<open>ratio\<close> and the step infinite
  without raising: the source goes on, appends the infinite time to the grid and leaves
  the loop. No real number is that step, and the function stops with \<open>NonFinite\<close>. And
  \<open>pow\<close> on positive floats is the real power \<open>powr\<close>, without the rounding of the
  doubles.
\<close>

definition time_limit :: "cmat \<Rightarrow> rvec \<Rightarrow> real \<Rightarrow> nat \<Rightarrow> pyerr + real" where
  "time_limit T v thr lanczos =
     (if lanczos = 0
      then (if T \<noteq> [] \<and> list_all (\<lambda>row. row \<noteq> []) T then Inl ValueError else Inl IndexError)
      else
        let lp = map (\<lambda>x. x ^ (lanczos - 1)) v in
        bindE (column T (lanczos - 1)) (\<lambda>col.
          if length lp \<noteq> length col then Inl ValueError
          else
            let vTdag = map2 (\<lambda>a b. complex_of_real a * cnj b) lp col;
                nrm = norm_c vTdag
            in if 170 < lanczos - 1 then Inl OverflowError
               else if lanczos = 1 then Inl ZeroDivisionError
               else if nrm = 0 then Inl NonFinite
               else
                 let ratio = fact (lanczos - 1) / nrm
                 in Inr (ratio powr (1 / real (lanczos - 1))
                         * thr powr (0.5 / real (lanczos - 1)))))"

subsection \<open>The collaborators\<close>

text \<open>
  \<open>lanczos_real\<close> and \<open>lanczos_complex\<close> are \<open>lib.lanczos_tridiagonalize\<close> with
  \<open>aop=hop\<close> and \<open>aop=hop_complex\<close>: they return the Krylov basis \<open>A\<close> and the columns
  \<open>alpha[:,0]\<close>, \<open>beta[:,0]\<close>. \<open>eigh_tridiagonal\<close>, \<open>eigh\<close> and \<open>expm\<close> are those of
  \<open>scipy.linalg\<close>; matrices are lists of rows.
\<close>

record env =
  lanczos_real :: "rvec \<Rightarrow> rvec list \<times> rvec \<times> rvec"
  lanczos_complex :: "cvec \<Rightarrow> cvec list \<times> cvec \<times> cvec"
  eigh_tridiagonal :: "rvec \<Rightarrow> rvec \<Rightarrow> rvec \<times> rmat"
  eigh :: "cmat \<Rightarrow> rvec \<times> cmat"
  expm :: "cmat \<Rightarrow> cmat"

subsection \<open>The propagation of one polarization axis, lines 805--916\<close>

text \<open>The variables that the \<open>while\<close> loop reads and writes.\<close>

record lstate =
  s_A :: "cvec list"
  s_len_tdiag :: nat
  s_Ht :: cmat
  s_t_lim :: real
  s_U :: cmat
  s_d :: cvec
  s_t :: real
  s_grid :: "real list"
  s_dipole_corr :: "complex list"
  s_list_left :: "cvec list"
  s_list_htdiag :: "cmat list"
  s_refresh :: nat

text \<open>
  \<^verbatim>\<open>
  Amu0=numpy.zeros((len_tdiag),complex)
  for k in range(len_tdiag):
      A_tmp = numpy.asarray(A[k])
      Amu0[k] = numpy.dot(A_tmp, mu_0[i])
  \<close>
\<close>

definition project_dipole :: "cvec list \<Rightarrow> cvec \<Rightarrow> nat \<Rightarrow> pyerr + cvec" where
  "project_dipole A mu len_tdiag =
     foldE (\<lambda>k Amu0. bindE (nth_e A k) (\<lambda>A_tmp. bindE (dot_c A_tmp mu) (\<lambda>v. Inr (Amu0[k := v]))))
       [0..<len_tdiag] (replicate len_tdiag 0)"

text \<open>\<open>-(1j)*Ht*t_lim\<close>\<close>

definition propagator_arg :: "cmat \<Rightarrow> real \<Rightarrow> cmat" where
  "propagator_arg Ht t_lim = map (map (\<lambda>h. - \<i> * h * complex_of_real t_lim)) Ht"

text \<open>\<open>numpy.exp(1j*e*t)\<close>\<close>

definition phase :: "real \<Rightarrow> real \<Rightarrow> complex" where
  "phase e t = exp (\<i> * complex_of_real e * complex_of_real t)"

text \<open>
  Lines 805--861: the first, real-valued pass on the normalised seed \<open>mu\<close>, up to the
  second \<open>grid.append(t)\<close>. Real arrays are stored as complex ones, as numpy does when
  it mixes the two.
\<close>

definition first_pass :: "env \<Rightarrow> real \<Rightarrow> rvec \<Rightarrow> pyerr + lstate" where
  "first_pass ev e mu =
     (case lanczos_real ev mu of (A, alpha, beta) \<Rightarrow>
      let len_tdiag = length alpha in
      bindE (build_Ht_first alpha beta) (\<lambda>Ht.
      case eigh_tridiagonal ev (slice_to alpha (int len_tdiag)) (slice_to beta (int len_tdiag - 1))
      of (w, T) \<Rightarrow>
      bindE (time_limit (map (map complex_of_real) T) w (1 / 10 ^ 6) len_tdiag) (\<lambda>t_lim.
      let Ac = map (map complex_of_real) A;
          muc = map complex_of_real mu;
          Htc = map (map complex_of_real) Ht;
          d = (replicate len_tdiag 0)[0 := 1];
          t = 0
      in
      bindE (einsum_ij_j Ac muc) (\<lambda>_.
      bindE (project_dipole Ac muc len_tdiag) (\<lambda>Amu0.
      bindE (dot_c Amu0 d) (\<lambda>s.
      let U = expm ev (propagator_arg Htc t_lim)
      in Inr \<lparr> s_A = Ac, s_len_tdiag = len_tdiag, s_Ht = Htc, s_t_lim = t_lim, s_U = U,
               s_d = d, s_t = t + t_lim, s_grid = [t, t + t_lim],
               s_dipole_corr = [s * phase e t],
               s_list_left = [Amu0], s_list_htdiag = [Htc], s_refresh = 1 \<rparr>))))))"

text \<open>
  Lines 864--875: the propagated amplitudes \<open>d_next\<close> and the normalised full-space
  vector. \<open>nconf\<close> is the size of the ground-state vector \<open>c\<close>.
\<close>

definition reconstruct :: "nat \<Rightarrow> lstate \<Rightarrow> pyerr + cvec" where
  "reconstruct nconf st =
     bindE (matvec (s_U st) (s_d st)) (\<lambda>d_next.
     bindE (foldE (\<lambda>k fcivec. bindE (nth_e (s_A st) k) (\<lambda>A_tmp.
                      bindE (nth_e d_next k) (\<lambda>dk. axpy fcivec A_tmp dk)))
              [0..<s_len_tdiag st] (replicate nconf 0)) (\<lambda>fcivec.
     let nrm = norm_c fcivec in
     if nrm = 0 then Inl NonFinite
     else Inr (map (\<lambda>z. z / complex_of_real nrm) fcivec)))"

text \<open>Lines 864--916: one turn of the \<open>while\<close> loop.\<close>

definition loop_body :: "env \<Rightarrow> nat \<Rightarrow> real \<Rightarrow> rvec \<Rightarrow> lstate \<Rightarrow> pyerr + lstate" where
  "loop_body ev nconf e mu st =
     bindE (reconstruct nconf st) (\<lambda>fcivec.
     case lanczos_complex ev fcivec of (A, alpha, beta) \<Rightarrow>
     let len_tdiag = length alpha in
     bindE (build_Ht_restart alpha beta) (\<lambda>Ht.
     case eigh ev Ht of (w, T) \<Rightarrow>
     bindE (time_limit (map (map (\<lambda>z. complex_of_real (Re z))) T) w (1 / 10 ^ 6) len_tdiag) (\<lambda>t_lim.
     let U = expm ev (propagator_arg Ht t_lim);
         muc = map complex_of_real mu
     in
     bindE (einsum_ij_j A muc) (\<lambda>_.
     bindE (project_dipole A muc len_tdiag) (\<lambda>Amu0.
     bindE (dot_c Amu0 (s_d st)) (\<lambda>s.
     Inr (st \<lparr> s_A := A, s_len_tdiag := len_tdiag, s_Ht := Ht, s_t_lim := t_lim, s_U := U,
               s_refresh := s_refresh st + 1,
               s_list_left := s_list_left st @ [Amu0],
               s_list_htdiag := s_list_htdiag st @ [Ht],
               s_dipole_corr := s_dipole_corr st @ [s * phase e (s_t st)],
               s_t := s_t st + t_lim,
               s_grid := s_grid st @ [s_t st + t_lim] \<rparr>)))))))"

text \<open>
  \<open>while (t < maxtime)\<close>. Nothing bounds the number of turns, so the loop takes fuel:
  \<open>None\<close> says that the fuel ran out before the test failed.
\<close>

fun while_loop :: "env \<Rightarrow> nat \<Rightarrow> real \<Rightarrow> rvec \<Rightarrow> real \<Rightarrow> nat \<Rightarrow> lstate \<Rightarrow> (pyerr + lstate) option" where
  "while_loop ev nconf e mu maxtime 0 st =
     (if s_t st < maxtime then None else Some (Inr st))"
| "while_loop ev nconf e mu maxtime (Suc fuel) st =
     (if s_t st < maxtime
      then (case loop_body ev nconf e mu st of
              Inl err \<Rightarrow> Some (Inl err)
            | Inr st' \<Rightarrow> while_loop ev nconf e mu maxtime fuel st')
      else Some (Inr st))"

text \<open>
  Lines 805--916 for one axis. \<open>maxtime\<close> defaults to \<open>None\<close>, and the loop test then
  raises TypeError.
\<close>

definition propagate :: "env \<Rightarrow> nat \<Rightarrow> real \<Rightarrow> rvec \<Rightarrow> real option \<Rightarrow> nat \<Rightarrow> (pyerr + lstate) option" where
  "propagate ev nconf e mu maxtime fuel =
     (case first_pass ev e mu of
        Inl err \<Rightarrow> Some (Inl err)
      | Inr st0 \<Rightarrow>
          (case maxtime of
             None \<Rightarrow> Some (Inl TypeError)
           | Some mt \<Rightarrow> while_loop ev nconf e mu mt fuel st0))"

subsection \<open>The eigensolver stage shared by \<open>kernel_ms1\<close> and \<open>kernel_lanczos\<close>\<close>

text \<open>
  The arguments of a kernel, after the \<open>None\<close> defaults are filled in from the solver
  object (lines 532--534 and 670--672); \<open>a_ci0_given\<close> says that \<open>ci0\<close> is not \<open>None\<close>.
\<close>

record kargs =
  a_ci0_given :: bool
  a_nroots :: nat
  a_davidson_only :: bool
  a_pspace_size :: int
  a_maxtime :: "real option"
  a_ecore :: real

text \<open>
  What the collaborators of the eigensolver stage give for one system: whether the
  \<open>nelec\<close> assertion holds, whether \<open>h1e\<close> or \<open>eri\<close> is complex, the string counts
  \<open>na\<close> and \<open>nb\<close>, the pspace addresses with the eigenpairs \<open>pw, pv\<close> of \<open>h0\<close>,
  \<open>lib.davidson1\<close> as a function of \<open>nroots\<close>, whether the solver has a molecule, and
  \<open>contract_1e(mo_dip[i], c, ...)\<close> as a function of \<open>i\<close> and \<open>c\<close>.
\<close>

record system =
  sys_norb :: nat
  sys_nelec_ok :: bool
  sys_complex_hamiltonian :: bool
  sys_na :: nat
  sys_nb :: nat
  sys_addr :: "nat list"
  sys_pw :: rvec
  sys_pv :: rmat
  sys_davidson1 :: "nat \<Rightarrow> bool list \<times> rvec \<times> rvec list"
  sys_mol_given :: bool
  sys_dipole :: "nat \<Rightarrow> rvec \<Rightarrow> rvec"

text \<open>The values a kernel returns in its tuple, and the arrays it saves.\<close>

datatype pyval =
    Float real | RealArray rvec | ComplexArray cvec | ArrayList "rvec list"
  | VectorList "cvec list" | MatrixList "cmat list"

text \<open>
  \<open>civec = numpy.empty(n); civec[addr] = vals\<close>. The entries that \<open>addr\<close> leaves out
  are uninitialised in the source and zero here; \<open>addr\<close> covers the whole space where
  the kernels use it.
\<close>

definition scatter :: "nat \<Rightarrow> nat list \<Rightarrow> rvec \<Rightarrow> pyerr + rvec" where
  "scatter n addr vals =
     (if length addr \<noteq> length vals then Inl ValueError
      else if list_all (\<lambda>i. i < n) addr
      then Inr (fold (\<lambda>iv civec. civec[fst iv := snd iv]) (zip addr vals) (replicate n 0))
      else Inl IndexError)"

text \<open>Reading \<open>pw[k]\<close> or \<open>pv[:,k]\<close> when \<open>pw = pv = None\<close> raises TypeError.\<close>

definition pw_at :: "rvec option \<Rightarrow> nat \<Rightarrow> pyerr + real" where
  "pw_at pw k = (case pw of None \<Rightarrow> Inl TypeError | Some w \<Rightarrow> nth_e w k)"

definition pv_col :: "rmat option \<Rightarrow> nat \<Rightarrow> pyerr + rvec" where
  "pv_col pv k = (case pv of None \<Rightarrow> Inl TypeError | Some v \<Rightarrow> column v k)"

text \<open>
  Lines 539--574 and 677--712. \<open>Inr (Some r)\<close> is an early \<open>return r\<close>; \<open>Inr None\<close>
  falls through to the Davidson iteration. \<open>pspace\<close> raises NotImplementedError for
  more than 63 orbitals, which the \<open>except\<close> clause catches.
\<close>

definition pspace_stage :: "system \<Rightarrow> kargs \<Rightarrow> pyerr + pyval list option" where
  "pspace_stage sy a =
     (if \<not> sys_nelec_ok sy then Inl AssertionError
      else if sys_complex_hamiltonian sy then Inl NotImplementedError
      else
        let na = sys_na sy; nb = sys_nb sy;
            nroots = min (na * nb) (a_nroots a)
        in
        if 63 < sys_norb sy then Inr None
        else
          let pw = (if 0 < a_pspace_size a then Some (sys_pw sy) else None);
              pv = (if 0 < a_pspace_size a then Some (sys_pv sy) else None)
          in
          if int (na * nb) \<le> a_pspace_size a \<and> \<not> a_ci0_given a \<and> \<not> a_davidson_only a
          then
            (if na * nb = 1
             then bindE (pw_at pw 0) (\<lambda>w0. bindE (pv_col pv 0) (\<lambda>v.
                    Inr (Some [Float (w0 + a_ecore a), RealArray v])))
             else if 1 < nroots
             then bindE (foldE (\<lambda>r civec. bindE (pv_col pv r) (\<lambda>v.
                                 bindE (scatter (na * nb) (sys_addr sy) v) (\<lambda>c. Inr (civec @ [c]))))
                           [0..<nroots] []) (\<lambda>civec.
                  case pw of
                    None \<Rightarrow> Inl TypeError
                  | Some w \<Rightarrow>
                      Inr (Some [RealArray (map (\<lambda>x. x + a_ecore a) (take nroots w)),
                                 ArrayList civec]))
             else bindE (pw_at pw 0) (\<lambda>w0. bindE (pw_at pw 1) (\<lambda>w1.
                    if 1 / 10 ^ 12 < \<bar>w0 - w1\<bar>
                    then bindE (pv_col pv 0) (\<lambda>v.
                           bindE (scatter (na * nb) (sys_addr sy) v) (\<lambda>civec.
                             Inr (Some [Float (w0 + a_ecore a), RealArray civec])))
                    else Inr None)))
          else Inr None)"

text \<open>
  \<open>FCIBase.eig\<close> on an operator, lines 1110--1122: one root is unpacked from the
  lists of \<open>lib.davidson1\<close>, several roots stay lists.
\<close>

datatype eig_result = One real rvec | Many rvec "rvec list"

definition FCIBase_eig :: "system \<Rightarrow> nat \<Rightarrow> pyerr + eig_result" where
  "FCIBase_eig sy nroots =
     (case sys_davidson1 sy nroots of (conv, e, ci) \<Rightarrow>
        if nroots = 1
        then bindE (nth_e conv 0) (\<lambda>_. bindE (nth_e e 0) (\<lambda>e0. bindE (nth_e ci 0) (\<lambda>c0.
               Inr (One e0 c0))))
        else Inr (Many e ci))"

text \<open>Lines 576--626 of \<open>kernel_ms1\<close>: the Davidson iteration and its return.\<close>

definition ms1_davidson :: "system \<Rightarrow> kargs \<Rightarrow> pyerr + pyval list" where
  "ms1_davidson sy a =
     (let nroots = min (sys_na sy * sys_nb sy) (a_nroots a) in
      bindE (FCIBase_eig sy nroots) (\<lambda>r.
        case r of
          One e c \<Rightarrow> Inr [Float (e + a_ecore a), RealArray c]
        | Many e c \<Rightarrow>
            if 1 < nroots then Inr [RealArray (map (\<lambda>x. x + a_ecore a) e), ArrayList c]
            else Inl AttributeError))"

definition kernel_ms1 :: "system \<Rightarrow> kargs \<Rightarrow> pyerr + pyval list" where
  "kernel_ms1 sy a =
     bindE (pspace_stage sy a) (\<lambda>r.
       case r of Some early \<Rightarrow> Inr early | None \<Rightarrow> ms1_davidson sy a)"

subsection \<open>\<open>kernel_lanczos\<close> after the eigensolver, lines 768--925\<close>

text \<open>
  Lines 782--790: \<open>mu_0[i] *= 1.0/nrm2\<close>, on the exact numbers: the doubles of the
  source round the norm, its reciprocal and every product, so the scaled vector of the
  program has norm one only up to rounding. A zero norm makes the row non-finite
  without raising, and the source goes on with it; here that is \<open>None\<close>, and the
  propagation of such a row stops with \<open>NonFinite\<close>.
\<close>

definition normalise_dipole :: "rvec \<Rightarrow> rvec option" where
  "normalise_dipole v =
     (let nrm2 = norm_r v in
      if nrm2 = 0 then None else Some (map (\<lambda>x. x * (1 / nrm2)) v))"

text \<open>\<open>str(i)\<close> for an axis index.\<close>

definition str_axis :: "nat \<Rightarrow> string" where
  "str_axis i = [''0123456789'' ! i]"

text \<open>
  The variables \<open>grid\<close> and \<open>dipole_corr\<close> as the axis loop leaves them (unbound
  before the first axis that is processed), and the files written so far.
\<close>

record axes =
  ax_grid :: "real list option"
  ax_dipole_corr :: "complex list option"
  ax_files :: "(string \<times> pyval) list"

text \<open>Lines 793--923: the body of \<open>for i in range(3)\<close>.\<close>

definition axis_body :: "system \<Rightarrow> env \<Rightarrow> kargs \<Rightarrow> real \<Rightarrow> rvec \<Rightarrow> nat \<Rightarrow> nat \<Rightarrow> axes
    \<Rightarrow> (pyerr + axes) option" where
  "axis_body sy ev a e c fuel i ax =
     (if i < 2 then Some (Inr ax)
      else
        (case normalise_dipole (sys_dipole sy i c) of
           None \<Rightarrow> Some (Inl NonFinite)
         | Some mu \<Rightarrow>
             (case propagate ev (length c) e mu (a_maxtime a) fuel of
                None \<Rightarrow> None
              | Some (Inl err) \<Rightarrow> Some (Inl err)
              | Some (Inr st) \<Rightarrow>
                  Some (Inr \<lparr> ax_grid = Some (s_grid st),
                              ax_dipole_corr = Some (s_dipole_corr st),
                              ax_files = ax_files ax @
                                [(''dip_'' @ str_axis i @ ''.npy'', VectorList (s_list_left st)),
                                 (''Ht_'' @ str_axis i @ ''.npy'', MatrixList (s_list_htdiag st)),
                                 (''lan_nodes_'' @ str_axis i @ ''.txt'', RealArray (s_grid st))] \<rparr>))))"

fun axes_loop :: "system \<Rightarrow> env \<Rightarrow> kargs \<Rightarrow> real \<Rightarrow> rvec \<Rightarrow> nat \<Rightarrow> nat list \<Rightarrow> axes
    \<Rightarrow> (pyerr + axes) option" where
  "axes_loop sy ev a e c fuel [] ax = Some (Inr ax)"
| "axes_loop sy ev a e c fuel (i # rest) ax =
     (case axis_body sy ev a e c fuel i ax of
        None \<Rightarrow> None
      | Some (Inl err) \<Rightarrow> Some (Inl err)
      | Some (Inr ax') \<Rightarrow> axes_loop sy ev a e c fuel rest ax')"

text \<open>The tuple a kernel returns and the files it has written.\<close>

record kresult =
  kr_ret :: "pyval list"
  kr_files :: "(string \<times> pyval) list"

text \<open>
  Lines 768--925, entered with the ground state of the Davidson iteration. A solver
  without molecule has no dipole integrals (line 772), and a list of several roots has
  no \<open>shape\<close> (line 775). The normalisation of the three dipole vectors (lines 782--790)
  is \<open>normalise_dipole\<close>, taken where a vector is used.
\<close>

definition lanczos_stage :: "system \<Rightarrow> env \<Rightarrow> kargs \<Rightarrow> nat \<Rightarrow> (pyerr + kresult) option" where
  "lanczos_stage sy ev a fuel =
     (let nroots = min (sys_na sy * sys_nb sy) (a_nroots a) in
      case FCIBase_eig sy nroots of
        Inl err \<Rightarrow> Some (Inl err)
      | Inr r \<Rightarrow>
          if \<not> sys_mol_given sy then Some (Inl AttributeError)
          else
            (case r of
               Many e c \<Rightarrow> Some (Inl AttributeError)
             | One e c \<Rightarrow>
                 (case axes_loop sy ev a e c fuel [0..<3]
                         \<lparr> ax_grid = None, ax_dipole_corr = None, ax_files = [] \<rparr> of
                    None \<Rightarrow> None
                  | Some (Inl err) \<Rightarrow> Some (Inl err)
                  | Some (Inr ax) \<Rightarrow>
                      (case (ax_grid ax, ax_dipole_corr ax) of
                         (Some grid, Some dipole_corr) \<Rightarrow>
                           Some (Inr \<lparr> kr_ret = [Float e, RealArray grid, ComplexArray dipole_corr],
                                       kr_files = ax_files ax \<rparr>)
                       | _ \<Rightarrow> Some (Inl UnboundLocalError)))))"

definition kernel_lanczos :: "system \<Rightarrow> env \<Rightarrow> kargs \<Rightarrow> nat \<Rightarrow> (pyerr + kresult) option" where
  "kernel_lanczos sy ev a fuel =
     (case pspace_stage sy a of
        Inl err \<Rightarrow> Some (Inl err)
      | Inr (Some early) \<Rightarrow> Some (Inr \<lparr> kr_ret = early, kr_files = [] \<rparr>)
      | Inr None \<Rightarrow> lanczos_stage sy ev a fuel)"

text \<open>
  \<open>FCIBase.kernel\<close>, lines 1137--1149: the value of \<open>kernel_lanczos\<close> is unpacked
  into five names, which raises ValueError on a tuple of any other length. The sanity
  check of the options and the assignments to \<open>self.norb\<close> and \<open>self.nelec\<close> are left
  out.
  \<^verbatim>\<open>
  self.eci, lan_nodes, dipole_corr, list_htdiag, list_left = \
          kernel_lanczos(self, h1e, eri, norb, nelec, ci0, None, ...)
  return self.eci, lan_nodes, dipole_corr, list_htdiag, list_left
  \<close>
\<close>

definition FCIBase_kernel :: "system \<Rightarrow> env \<Rightarrow> kargs \<Rightarrow> nat \<Rightarrow> (pyerr + pyval list) option" where
  "FCIBase_kernel sy ev a fuel =
     (case kernel_lanczos sy ev a fuel of
        None \<Rightarrow> None
      | Some (Inl err) \<Rightarrow> Some (Inl err)
      | Some (Inr r) \<Rightarrow>
          (case kr_ret r of
             [eci, lan_nodes, dipole_corr, list_htdiag, list_left] \<Rightarrow>
               Some (Inr [eci, lan_nodes, dipole_corr, list_htdiag, list_left])
           | _ \<Rightarrow> Some (Inl ValueError)))"

subsection \<open>\<open>FCIBase.energy\<close>, lines 1151--1157\<close>

text \<open>
  \<^verbatim>\<open>
  def energy(self, h1e, eri, fcivec, norb, nelec, link_index=None):
      nelec = _unpack_nelec(nelec, self.spin)
      h2e = self.absorb_h1e(h1e, eri, norb, nelec, .5)
      ci1 = self.contract_2e_complex(h2e, fcivec, norb, nelec, link_index)
      return numpy.dot(fcivec.reshape(-1), ci1.reshape(-1))
  \<close>
  An attribute of a solver is found in the dictionary of the instance, in the body of
  \<open>FCISolver\<close>, in the body of \<open>FCIBase\<close>, or in the classes above (\<open>lib.StreamObject\<close>
  and \<open>object\<close>, which are not part of the file and are a parameter here).
\<close>

datatype dtype = Float64 | Complex128

text \<open>The names bound in the body of \<open>class FCIBase\<close>, lines 953--1237.\<close>

definition FCIBase_namespace :: "string list" where
  "FCIBase_namespace =
     [''max_cycle'', ''max_space'', ''conv_tol'', ''conv_tol_residual'', ''lindep'',
      ''level_shift'', ''davidson_only'', ''pspace_size'', ''threads'', ''lessio'',
      ''__init__'', ''e_tot'', ''nstates'', ''dump_flags'', ''absorb_h1e'', ''make_hdiag'',
      ''pspace'', ''contract_1e'', ''contract_2e'', ''eig'', ''make_precond'',
      ''get_init_guess'', ''kernel'', ''energy'', ''spin_square'', ''make_rdm1s'',
      ''make_rdm1'', ''make_rdm12s'', ''make_rdm12'', ''make_rdm2'', ''trans_rdm1s'',
      ''trans_rdm1'', ''trans_rdm12s'', ''trans_rdm12'', ''large_ci'', ''contract_ss'',
      ''gen_linkstr'']"

text \<open>The names bound in the body of \<open>class FCISolver\<close>, lines 1239--1244.\<close>

definition FCISolver_namespace :: "string list" where
  "FCISolver_namespace = [''transform_ci_for_orbital_rotation'']"

text \<open>The attributes that \<open>__init__\<close> sets on the instance, lines 1031--1057.\<close>

definition init_instance_dict :: "string list" where
  "init_instance_dict =
     [''stdout'', ''verbose'', ''max_memory'', ''mol'', ''nroots'', ''spin'', ''orbsym'',
      ''wfnsym'', ''converged'', ''norb'', ''nelec'', ''eci'', ''ci'', ''_keys'']"

definition has_attribute :: "string list \<Rightarrow> string list \<Rightarrow> string \<Rightarrow> bool" where
  "has_attribute supers inst name =
     (name \<in> set inst \<or> name \<in> set FCISolver_namespace
      \<or> name \<in> set FCIBase_namespace \<or> name \<in> set supers)"

text \<open>
  \<open>absorb_h1e\<close>, lines 176--190: complex integrals are rejected; \<open>h2e\<close> stands for the
  absorbed integrals that the rest of the function computes.
\<close>

definition absorb_h1e :: "dtype \<Rightarrow> dtype \<Rightarrow> 'h \<Rightarrow> pyerr + 'h" where
  "absorb_h1e h1e_dtype eri_dtype h2e =
     (if h1e_dtype = Complex128 \<or> eri_dtype = Complex128 then Inl NotImplementedError
      else Inr h2e)"

text \<open>
  The arguments of a call of \<open>energy\<close>: what \<open>_unpack_nelec\<close> (of \<open>pyscf.fci.addons\<close>)
  makes of \<open>nelec\<close>, the dtypes of the integrals, the absorbed integrals, and the value
  of \<open>numpy.dot(fcivec, ci1)\<close> for the contracted vector.
\<close>

record 'h energy_call =
  en_unpack_nelec :: "pyerr + nat \<times> nat"
  en_h1e_dtype :: dtype
  en_eri_dtype :: dtype
  en_h2e :: 'h
  en_dot :: "'h \<Rightarrow> pyerr + complex"

text \<open>
  The method. \<open>supers\<close> are the attribute names of the classes above \<open>FCIBase\<close> and
  \<open>inst\<close> those of the instance; if one of them binds \<open>contract_2e_complex\<close> the call
  goes there, and \<open>en_dot\<close> stands for what comes back.
\<close>

definition FCIBase_energy :: "string list \<Rightarrow> string list \<Rightarrow> 'h energy_call \<Rightarrow> pyerr + complex" where
  "FCIBase_energy supers inst call =
     bindE (en_unpack_nelec call) (\<lambda>nelec.
     bindE (absorb_h1e (en_h1e_dtype call) (en_eri_dtype call) (en_h2e call)) (\<lambda>h2e.
       if has_attribute supers inst ''contract_2e_complex'' then en_dot call h2e
       else Inl AttributeError))"

text \<open>The module-level \<open>energy\<close>, lines 280--285, which calls \<open>contract_2e\<close>.\<close>

definition energy :: "'h energy_call \<Rightarrow> pyerr + complex" where
  "energy call =
     bindE (absorb_h1e (en_h1e_dtype call) (en_eri_dtype call) (en_h2e call)) (\<lambda>h2e.
       en_dot call h2e)"

subsection \<open>The statements of the specification\<close>

text \<open>
  The time step as the specification writes it,
  \<open>t_lim = (factorial(m-1) / \<parallel>w^(m-1) \<odot> T[:,m-1]\<parallel>)^(1/(m-1)) \<cdot> thr^(0.5/(m-1))\<close> with
  \<open>thr = 1e-6\<close>, for eigenvalues \<open>w\<close> and eigenvectors \<open>T\<close> (a list of rows).
\<close>

definition t_lim_spec :: "rvec \<Rightarrow> cmat \<Rightarrow> nat \<Rightarrow> real" where
  "t_lim_spec w T m =
     (fact (m - 1) / norm_c (map2 (\<lambda>x row. complex_of_real (x ^ (m - 1)) * row ! (m - 1)) w T))
       powr (1 / real (m - 1))
     * (1 / 10 ^ 6) powr (0.5 / real (m - 1))"

text \<open>
  Modelled from the spec: \<open>lib.lanczos_tridiagonalize\<close> is not part of the file. The
  specification says of the Krylov basis it returns that it is orthonormal and that its
  first vector is the normalised seed; \<open>krylov_seeded x0 A\<close> is the second half, for
  the real-valued first pass.
\<close>

definition krylov_seeded :: "rvec \<Rightarrow> rvec list \<Rightarrow> bool" where
  "krylov_seeded x0 A = (A \<noteq> [] \<and> A ! 0 = map (\<lambda>x. x / norm_r x0) x0)"

subsection \<open>Sample systems\<close>

text \<open>
  A two-determinant system. The operator is \<open>[[9/20000, 3/5000], [3/5000, 1/1250]]\<close>
  with the eigenvalues \<open>0\<close> and \<open>1/800\<close>; its Krylov basis on the seed \<open>[1, 0]\<close> is the
  standard basis, so \<open>alpha\<close> is its diagonal and \<open>beta\<close> its off-diagonal entry. The
  first pass gets the eigenpairs of that matrix, a restart those of the diagonal matrix
  that the code builds for two basis vectors. The matrix exponential is replaced by
  the identity.
\<close>

definition demo_Ar :: "rvec list" where "demo_Ar = [[1, 0], [0, 1]]"
definition demo_alpha :: rvec where "demo_alpha = [9 / 20000, 1 / 1250]"
definition demo_beta :: rvec where "demo_beta = [3 / 5000]"
definition demo_w0 :: rvec where "demo_w0 = [0, 1 / 800]"
definition demo_T0 :: rmat where "demo_T0 = [[4 / 5, 3 / 5], [- 3 / 5, 4 / 5]]"
definition demo_w1 :: rvec where "demo_w1 = [9 / 20000, 1 / 1250]"
definition demo_T1 :: cmat where "demo_T1 = [[1, 0], [0, 1]]"
definition demo_U :: cmat where "demo_U = [[1, 0], [0, 1]]"
definition demo_mu :: rvec where "demo_mu = [1, 0]"
definition demo_Ht :: cmat where "demo_Ht = [[9 / 20000, 0], [0, 1 / 1250]]"

definition demo_env :: env where
  "demo_env =
     \<lparr> lanczos_real = (\<lambda>x. (demo_Ar, demo_alpha, demo_beta)),
       lanczos_complex = (\<lambda>x. (map (map complex_of_real) demo_Ar, map complex_of_real demo_alpha,
                                map complex_of_real demo_beta)),
       eigh_tridiagonal = (\<lambda>a b. (demo_w0, demo_T0)),
       eigh = (\<lambda>M. (demo_w1, demo_T1)),
       expm = (\<lambda>M. demo_U) \<rparr>"

definition demo_st0 :: lstate where
  "demo_st0 =
     \<lparr> s_A = [[1, 0], [0, 1]], s_len_tdiag = 2, s_Ht = demo_Ht, s_t_lim = 1, s_U = demo_U,
       s_d = [1, 0], s_t = 1, s_grid = [0, 1], s_dipole_corr = [1], s_list_left = [[1, 0]],
       s_list_htdiag = [demo_Ht], s_refresh = 1 \<rparr>"

definition demo_st1 :: lstate where
  "demo_st1 =
     \<lparr> s_A = [[1, 0], [0, 1]], s_len_tdiag = 2, s_Ht = demo_Ht, s_t_lim = 5 / 4, s_U = demo_U,
       s_d = [1, 0], s_t = 9 / 4, s_grid = [0, 1, 9 / 4], s_dipole_corr = [1, 1],
       s_list_left = [[1, 0], [1, 0]], s_list_htdiag = [demo_Ht, demo_Ht], s_refresh = 2 \<rparr>"

text \<open>
  The system around it: the ground state \<open>[4/5, -3/5]\<close> of energy \<open>0\<close>, a dipole
  along the third axis only, and the Davidson iteration forced as in the file's own
  main program.
\<close>

definition demo_sys :: system where
  "demo_sys =
     \<lparr> sys_norb = 2, sys_nelec_ok = True, sys_complex_hamiltonian = False,
       sys_na = 2, sys_nb = 1, sys_addr = [0, 1], sys_pw = [0, 1 / 800],
       sys_pv = [[4 / 5, 3 / 5], [- 3 / 5, 4 / 5]],
       sys_davidson1 = (\<lambda>n. ([True], [0], [[4 / 5, - 3 / 5]])),
       sys_mol_given = True,
       sys_dipole = (\<lambda>i c. if i = 2 then [2, 0] else [0, 0]) \<rparr>"

definition demo_args :: kargs where
  "demo_args =
     \<lparr> a_ci0_given = False, a_nroots = 1, a_davidson_only = True, a_pspace_size = 400,
       a_maxtime = Some 2, a_ecore = 0 \<rparr>"

definition demo_result :: kresult where
  "demo_result =
     \<lparr> kr_ret = [Float 0, RealArray [0, 1, 9 / 4], ComplexArray [1, 1]],
       kr_files = [(''dip_2.npy'', VectorList [[1, 0], [1, 0]]),
                   (''Ht_2.npy'', MatrixList [demo_Ht, demo_Ht]),
                   (''lan_nodes_2.txt'', RealArray [0, 1, 9 / 4])] \<rparr>"

text \<open>The same system with a degenerate pspace and the direct solver allowed.\<close>

definition degenerate_sys :: system where
  "degenerate_sys = demo_sys \<lparr> sys_pw := [1, 1] \<rparr>"

definition direct_args :: kargs where
  "direct_args = demo_args \<lparr> a_davidson_only := False \<rparr>"

text \<open>
  The same environment with a propagator that turns the first amplitude by the phase
  \<open>3/5 - 4/5 i\<close>, as the exponential of a diagonal matrix does.
\<close>

definition phase_U :: cmat where
  "phase_U = [[Complex (3 / 5) (- 4 / 5), 0], [0, 1]]"

definition phase_env :: env where
  "phase_env = demo_env \<lparr> expm := (\<lambda>M. phase_U) \<rparr>"

definition phase_st0 :: lstate where
  "phase_st0 = demo_st0 \<lparr> s_U := phase_U \<rparr>"

definition phase_st1 :: lstate where
  "phase_st1 = demo_st1 \<lparr> s_U := phase_U \<rparr>"

text \<open>
  A restart with three basis vectors and a complex off-diagonal coefficient. The
  matrix that the code builds from \<open>herm_alpha\<close> and \<open>herm_beta\<close> is \<open>herm_Ht\<close>, and
  \<open>herm_w\<close>, \<open>herm_T\<close> are its eigenvalues and eigenvectors (the columns of \<open>herm_T\<close>).
\<close>

definition herm_alpha :: cvec where "herm_alpha = [34 / 25, 41 / 25, - 1]"
definition herm_beta :: cvec where "herm_beta = [Complex 0 (- 12 / 25), 1 / 2]"

definition herm_Ht :: cmat where
  "herm_Ht = [[34 / 25, Complex 0 (- 12 / 25), 0], [Complex 0 (12 / 25), 41 / 25, 0], [0, 0, - 1]]"

definition herm_w :: rvec where "herm_w = [- 1, 1, 2]"

definition herm_T :: cmat where
  "herm_T = [[0, 4 / 5, 3 / 5], [0, Complex 0 (- 3 / 5), Complex 0 (4 / 5)], [1, 0, 0]]"

text \<open>
  \<open>herm_T\<close> with its last column multiplied by \<open>i\<close>: the same eigenvector with another
  phase, which an eigensolver is as free to return.
\<close>

definition herm_T_turned :: cmat where
  "herm_T_turned = [[0, 4 / 5, Complex 0 (3 / 5)], [0, Complex 0 (- 3 / 5), - 4 / 5], [1, 0, 0]]"

definition herm_I :: cmat where "herm_I = [[1, 0, 0], [0, 1, 0], [0, 0, 1]]"

definition herm_mu :: rvec where "herm_mu = [1, 0, 0]"

definition herm_env :: env where
  "herm_env =
     \<lparr> lanczos_real = (\<lambda>x. ([[1, 0, 0], [0, 1, 0], [0, 0, 1]], [34 / 25, 41 / 25, - 1], [0, 1 / 2])),
       lanczos_complex = (\<lambda>x. (herm_I, herm_alpha, herm_beta)),
       eigh_tridiagonal = (\<lambda>a b. ([- 1, 1, 2], [[0, 4 / 5, 3 / 5], [0, - 3 / 5, 4 / 5], [1, 0, 0]])),
       eigh = (\<lambda>M. (herm_w, herm_T)),
       expm = (\<lambda>M. herm_I) \<rparr>"

definition herm_st0 :: lstate where
  "herm_st0 =
     \<lparr> s_A = herm_I, s_len_tdiag = 3, s_Ht = herm_Ht, s_t_lim = 1, s_U = herm_I,
       s_d = [1, 0, 0], s_t = 1, s_grid = [0, 1], s_dipole_corr = [1],
       s_list_left = [[1, 0, 0]], s_list_htdiag = [herm_Ht], s_refresh = 1 \<rparr>"

definition herm_t_lim :: real where
  "herm_t_lim = (10 / 3) powr (1 / 2) * (1 / 10 ^ 6) powr (1 / 4)"

definition herm_st1 :: lstate where
  "herm_st1 =
     \<lparr> s_A = herm_I, s_len_tdiag = 3, s_Ht = herm_Ht, s_t_lim = herm_t_lim, s_U = herm_I,
       s_d = [1, 0, 0], s_t = 1 + herm_t_lim, s_grid = [0, 1, 1 + herm_t_lim],
       s_dipole_corr = [1, 1],
       s_list_left = [[1, 0, 0], [1, 0, 0]], s_list_htdiag = [herm_Ht, herm_Ht],
       s_refresh = 2 \<rparr>"

text \<open>A call of \<open>energy\<close> with complex one-electron integrals, and one with real integrals.\<close>

definition complex_call :: "unit energy_call" where
  "complex_call =
     \<lparr> en_unpack_nelec = Inr (1, 1), en_h1e_dtype = Complex128, en_eri_dtype = Float64,
       en_h2e = (), en_dot = (\<lambda>h. Inr 0) \<rparr>"

definition real_call :: "unit energy_call" where
  "real_call =
     \<lparr> en_unpack_nelec = Inr (1, 1), en_h1e_dtype = Float64, en_eri_dtype = Float64,
       en_h2e = (), en_dot = (\<lambda>h. Inr 0) \<rparr>"

section \<open>Properties\<close>

subsection \<open>Sequencing and the numbers of the sample systems\<close>

lemma bindE_Inr: "bindE (Inr x) f = f x"
  by (simp add: bindE_def)

lemma bindE_Inl: "bindE (Inl err) f = Inl err"
  by (simp add: bindE_def)

lemma bindE_Inr_iff: "bindE r f = Inr y \<longleftrightarrow> (\<exists>x. r = Inr x \<and> f x = Inr y)"
  by (cases r) (simp_all add: bindE_def)

lemma upt2: "[0..<2] = [0, 1]"
  by (simp add: upt_rec)

lemma upt3: "[0..<3] = [0, 1, 2]"
  by (simp add: upt_rec)

lemma thr_half: "(1 / 10 ^ 6 :: real) powr (1 / 2) = 1 / 1000"
proof -
  have "sqrt (1 / 10 ^ 6 :: real) = 1 / 1000"
    by (rule real_sqrt_unique) (simp_all add: power_divide)
  then show ?thesis by (simp add: powr_half_sqrt)
qed

lemma norm_c_nonneg: "0 \<le> norm_c xs"
  unfolding norm_c_def by (rule real_sqrt_ge_zero) (induction xs, simp_all)

lemma norm_c_pair: "0 \<le> x \<Longrightarrow> norm_c [0, complex_of_real x] = x"
  by (simp add: norm_c_def)

subsection \<open>The run of the two-determinant system\<close>

lemma demo_Ht_first:
  "build_Ht_first demo_alpha demo_beta = Inr [[9 / 20000, 0], [0, 1 / 1250]]"
  by (simp add: build_Ht_first_def demo_alpha_def demo_beta_def Ht_body_def bindE_def nth_e_def
      set2_def zeros2_def upt2)

lemma demo_Ht_restart:
  "build_Ht_restart (map complex_of_real demo_alpha) (map complex_of_real demo_beta) = Inr demo_Ht"
  by (simp add: build_Ht_restart_def demo_alpha_def demo_beta_def Ht_body_def bindE_def nth_e_def
      set2_def zeros2_def upt2 demo_Ht_def)

lemma demo_time_limit_first:
  "time_limit (map (map complex_of_real) demo_T0) demo_w0 (1 / 10 ^ 6) 2 = Inr 1"
proof -
  have n: "norm_c [0, 1 / 1000] = 1 / 1000"
    using norm_c_pair [of "1 / 1000"] by simp
  have h: "(5 / 10 :: real) = 1 / 2" by simp
  show ?thesis
    using thr_half
    by (simp add: time_limit_def column_def bindE_def n Let_def h demo_T0_def demo_w0_def)
qed

lemma demo_time_limit_restart:
  "time_limit (map (map (\<lambda>z. complex_of_real (Re z))) demo_T1) demo_w1 (1 / 10 ^ 6) 2
     = Inr (5 / 4)"
proof -
  have n: "norm_c [0, 1 / 1250] = 1 / 1250"
    using norm_c_pair [of "1 / 1250"] by simp
  have h: "(5 / 10 :: real) = 1 / 2" by simp
  show ?thesis
    using thr_half
    by (simp add: time_limit_def column_def bindE_def n Let_def h demo_T1_def demo_w1_def)
qed

lemma demo_project: "project_dipole [[1, 0], [0, 1]] [1, 0] 2 = Inr [1, 0]"
  by (simp add: project_dipole_def upt2 bindE_def nth_e_def dot_c_def numeral_2_eq_2)

lemma demo_einsum: "einsum_ij_j [[1, 0], [0, 1]] [1, 0] = Inr [1, 0]"
  by (simp add: einsum_ij_j_def)

lemma first_pass_two_determinants:
  assumes x: "\<And>M. expm ev M = U"
    and l: "lanczos_real ev demo_mu = (demo_Ar, demo_alpha, demo_beta)"
    and g: "\<And>a b. eigh_tridiagonal ev a b = (demo_w0, demo_T0)"
  shows "first_pass ev 0 demo_mu = Inr (demo_st0 \<lparr> s_U := U \<rparr>)"
proof -
  have len: "length demo_alpha = 2" by (simp add: demo_alpha_def)
  have a: "map (map complex_of_real) demo_Ar = [[1, 0], [0, 1]]" by (simp add: demo_Ar_def)
  have m: "map complex_of_real demo_mu = [1, 0]" by (simp add: demo_mu_def)
  have ht: "map (map complex_of_real) [[9 / 20000, 0], [0, 1 / 1250]] = demo_Ht"
    by (simp add: demo_Ht_def)
  have d: "dot_c [1, 0] ((replicate 2 0)[0 := 1]) = Inr 1"
    by (simp add: dot_c_def numeral_2_eq_2)
  have d2: "(replicate 2 (0::complex))[0 := 1] = [1, 0]"
    by (simp add: numeral_2_eq_2)
  show ?thesis
    unfolding first_pass_def l prod.case Let_def demo_Ht_first bindE_Inr g
      a m ht demo_einsum len demo_time_limit_first demo_project d x
    by (simp add: demo_st0_def phase_def d2)
qed

lemma demo_first_pass: "first_pass demo_env 0 demo_mu = Inr demo_st0"
  using first_pass_two_determinants [of demo_env demo_U]
  by (simp add: demo_env_def demo_st0_def)

lemma loop_body_two_determinants:
  assumes x: "\<And>M. expm ev M = U"
    and l: "\<And>v. lanczos_complex ev v = (map (map complex_of_real) demo_Ar,
      map complex_of_real demo_alpha, map complex_of_real demo_beta)"
    and g: "\<And>M. eigh ev M = (demo_w1, demo_T1)"
    and r: "reconstruct 2 st = Inr fcivec"
    and d: "s_d st = [1, 0]"
  shows "loop_body ev 2 0 demo_mu st =
    Inr (st \<lparr> s_A := [[1, 0], [0, 1]], s_len_tdiag := 2, s_Ht := demo_Ht, s_t_lim := 5 / 4,
              s_U := U, s_refresh := s_refresh st + 1,
              s_list_left := s_list_left st @ [[1, 0]],
              s_list_htdiag := s_list_htdiag st @ [demo_Ht],
              s_dipole_corr := s_dipole_corr st @ [1],
              s_t := s_t st + 5 / 4, s_grid := s_grid st @ [s_t st + 5 / 4] \<rparr>)"
proof -
  have len: "length (map complex_of_real demo_alpha) = 2" by (simp add: demo_alpha_def)
  have a: "map (map complex_of_real) demo_Ar = [[1, 0], [0, 1]]" by (simp add: demo_Ar_def)
  have m: "map complex_of_real demo_mu = [1, 0]" by (simp add: demo_mu_def)
  have dt: "dot_c [1, 0] [1, 0] = Inr 1"
    by (simp add: dot_c_def)
  show ?thesis
    unfolding loop_body_def r bindE_Inr l prod.case Let_def demo_Ht_restart g
      a m demo_einsum len demo_time_limit_restart demo_project d dt x
    by (simp add: phase_def)
qed

lemma demo_reconstruct: "reconstruct 2 demo_st0 = Inr [1, 0]"
proof -
  have mv: "matvec demo_U [1, 0] = Inr [1, 0]"
    by (simp add: matvec_def demo_U_def)
  have f: "foldE (\<lambda>k fcivec. bindE (nth_e [[1, 0], [0, 1]] k) (\<lambda>A_tmp.
                bindE (nth_e [1, 0] k) (\<lambda>dk. axpy fcivec A_tmp dk))) [0..<2] (replicate 2 0)
           = Inr [1, 0]"
    by (simp add: upt2 bindE_def nth_e_def axpy_def numeral_2_eq_2)
  have n: "norm_c [1, 0] = 1" by (simp add: norm_c_def)
  show ?thesis
    unfolding reconstruct_def by (simp add: demo_st0_def mv bindE_Inr f n)
qed

lemma demo_loop_body: "loop_body demo_env 2 0 demo_mu demo_st0 = Inr demo_st1"
  using loop_body_two_determinants [of demo_env demo_U demo_st0, OF _ _ _ demo_reconstruct]
  by (simp add: demo_env_def demo_st0_def demo_st1_def)

lemma demo_while_loop:
  "while_loop demo_env 2 0 demo_mu 2 (Suc (Suc 0)) demo_st0 = Some (Inr demo_st1)"
proof -
  have t0: "s_t demo_st0 < 2" by (simp add: demo_st0_def)
  have t1: "\<not> s_t demo_st1 < 2" by (simp add: demo_st1_def)
  show ?thesis by (simp add: t0 t1 demo_loop_body)
qed

lemma demo_propagate: "propagate demo_env 2 0 demo_mu (Some 2) 2 = Some (Inr demo_st1)"
  using demo_while_loop by (simp add: propagate_def demo_first_pass numeral_2_eq_2)

lemma demo_propagate_no_time:
  "propagate demo_env 2 0 demo_mu (Some 0) 0 = Some (Inr demo_st0)"
  by (simp add: propagate_def demo_first_pass) (simp add: demo_st0_def)

subsection \<open>What a turn of the loop changes\<close>

lemma time_limit_Inr:
  assumes "time_limit T v thr m = Inr x" and "0 < thr"
  shows "2 \<le> m" and "0 < x"
proof -
  from assms(1) have m: "m \<noteq> 0" "m \<noteq> 1"
    by (auto simp: time_limit_def bindE_Inr_iff Let_def split: if_splits)
  then show "2 \<le> m" by simp
  from assms(1) m obtain col where
    x: "x = (fact (m - 1) / norm_c (map2 (\<lambda>a b. complex_of_real a * cnj b) (map (\<lambda>x. x ^ (m - 1)) v) col))
            powr (1 / real (m - 1)) * thr powr (0.5 / real (m - 1))"
    and n: "norm_c (map2 (\<lambda>a b. complex_of_real a * cnj b) (map (\<lambda>x. x ^ (m - 1)) v) col) \<noteq> 0"
    by (auto simp: time_limit_def bindE_Inr_iff Let_def split: if_splits)
  let ?n = "norm_c (map2 (\<lambda>a b. complex_of_real a * cnj b) (map (\<lambda>x. x ^ (m - 1)) v) col)"
  from n norm_c_nonneg [of "map2 (\<lambda>a b. complex_of_real a * cnj b) (map (\<lambda>x. x ^ (m - 1)) v) col"]
  have pos: "0 < ?n" by simp
  have "0 < (fact (m - 1) / ?n) powr (1 / real (m - 1))"
    using pos by simp
  moreover have "0 < thr powr (0.5 / real (m - 1))"
    using assms(2) by simp
  ultimately show "0 < x" unfolding x by (rule mult_pos_pos)
qed

lemma loop_body_Inr:
  assumes "loop_body ev nconf e mu st = Inr st'"
  shows "s_d st' = s_d st"
    and "s_t st' = s_t st + s_t_lim st'"
    and "s_grid st' = s_grid st @ [s_t st']"
    and "\<exists>x. s_dipole_corr st' = s_dipole_corr st @ [x]"
    and "\<exists>x. s_list_left st' = s_list_left st @ [x]"
    and "s_list_htdiag st' = s_list_htdiag st @ [s_Ht st']"
    and "0 < s_t_lim st'"
    and "2 \<le> s_len_tdiag st'"
proof -
  from assms obtain T w where
    tl: "time_limit T w (1 / 10 ^ 6) (s_len_tdiag st') = Inr (s_t_lim st')"
    by (auto simp: loop_body_def bindE_Inr_iff Let_def case_prod_beta)
  from time_limit_Inr [OF tl] show "0 < s_t_lim st'" and "2 \<le> s_len_tdiag st'"
    by simp_all
  from assms show "s_d st' = s_d st"
    and "s_t st' = s_t st + s_t_lim st'"
    and "s_grid st' = s_grid st @ [s_t st']"
    and "\<exists>x. s_dipole_corr st' = s_dipole_corr st @ [x]"
    and "\<exists>x. s_list_left st' = s_list_left st @ [x]"
    and "s_list_htdiag st' = s_list_htdiag st @ [s_Ht st']"
    by (auto simp: loop_body_def bindE_Inr_iff Let_def case_prod_beta)
qed

lemma first_pass_Inr:
  assumes "first_pass ev e mu = Inr st"
  shows "s_d st = (replicate (s_len_tdiag st) 0)[0 := 1]"
    and "s_t st = s_t_lim st"
    and "s_grid st = [0, s_t_lim st]"
    and "length (s_dipole_corr st) = 1"
    and "length (s_list_left st) = 1"
    and "s_list_htdiag st = [s_Ht st]"
    and "0 < s_t_lim st"
    and "2 \<le> s_len_tdiag st"
proof -
  from assms obtain T w where
    tl: "time_limit T w (1 / 10 ^ 6) (s_len_tdiag st) = Inr (s_t_lim st)"
    by (auto simp: first_pass_def bindE_Inr_iff Let_def case_prod_beta)
  from time_limit_Inr [OF tl] show "0 < s_t_lim st" and "2 \<le> s_len_tdiag st"
    by simp_all
  from assms show "s_d st = (replicate (s_len_tdiag st) 0)[0 := 1]"
    and "s_t st = s_t_lim st"
    and "s_grid st = [0, s_t_lim st]"
    and "length (s_dipole_corr st) = 1"
    and "length (s_list_left st) = 1"
    and "s_list_htdiag st = [s_Ht st]"
    by (auto simp: first_pass_def bindE_Inr_iff Let_def case_prod_beta)
qed

text \<open>A property that every turn keeps holds when the loop is left.\<close>

lemma while_loop_invariant:
  assumes "while_loop ev nconf e mu mt fuel st = Some (Inr st')"
    and "P st"
    and step: "\<And>s s'. P s \<Longrightarrow> s_t s < mt \<Longrightarrow> loop_body ev nconf e mu s = Inr s' \<Longrightarrow> P s'"
  shows "P st' \<and> \<not> s_t st' < mt"
  using assms(1,2)
proof (induction fuel arbitrary: st)
  case 0
  then show ?case by (simp split: if_splits)
next
  case (Suc fuel)
  show ?case
  proof (cases "s_t st < mt")
    case False
    with Suc.prems show ?thesis by simp
  next
    case True
    with Suc.prems(1) obtain s1 where
      b: "loop_body ev nconf e mu st = Inr s1" and
      w: "while_loop ev nconf e mu mt fuel s1 = Some (Inr st')"
      by (auto split: sum.splits)
    from step [OF Suc.prems(2) True b] have "P s1" .
    with Suc.IH [OF w] show ?thesis by simp
  qed
qed

lemma propagate_Some:
  assumes "propagate ev nconf e mu maxtime fuel = Some (Inr st)"
  obtains st0 mt where "first_pass ev e mu = Inr st0" and "maxtime = Some mt"
    and "while_loop ev nconf e mu mt fuel st0 = Some (Inr st)"
  using assms by (auto simp: propagate_def split: sum.splits option.splits)

subsection \<open>The time grid and the correlation samples\<close>

text \<open>
  C4, as the code has it. When the propagation of an axis finishes, the time grid has
  exactly one entry more than the sequence of correlation samples: the grid starts with
  the two entries \<open>0\<close> and \<open>t_lim\<close> against one sample, and every turn of the loop
  appends one entry to each. The per-restart snapshots are as many as the samples.
\<close>

theorem grid_one_longer_than_samples:
  assumes "propagate ev nconf e mu maxtime fuel = Some (Inr st)"
  shows "length (s_grid st) = length (s_dipole_corr st) + 1
       \<and> length (s_list_left st) = length (s_dipole_corr st)
       \<and> length (s_list_htdiag st) = length (s_dipole_corr st)"
proof -
  let ?P = "\<lambda>s. length (s_grid s) = length (s_dipole_corr s) + 1
       \<and> length (s_list_left s) = length (s_dipole_corr s)
       \<and> length (s_list_htdiag s) = length (s_dipole_corr s)"
  from assms obtain st0 mt where f: "first_pass ev e mu = Inr st0"
    and w: "while_loop ev nconf e mu mt fuel st0 = Some (Inr st)"
    by (rule propagate_Some)
  have "?P st0" using first_pass_Inr [OF f] by simp
  moreover have "?P s'" if "?P s" and "loop_body ev nconf e mu s = Inr s'" for s s'
    using that(1) loop_body_Inr [OF that(2)] by auto
  ultimately show ?thesis
    using while_loop_invariant [OF w, of ?P] by blast
qed

theorem grid_one_longer_than_samples_witness:
  "propagate demo_env 2 0 demo_mu (Some 2) 2 = Some (Inr demo_st1)
   \<and> length (s_grid demo_st1) = length (s_dipole_corr demo_st1) + 1
   \<and> length (s_list_left demo_st1) = length (s_dipole_corr demo_st1)
   \<and> length (s_list_htdiag demo_st1) = length (s_dipole_corr demo_st1)"
  using grid_one_longer_than_samples [OF demo_propagate] demo_propagate by simp

text \<open>
  The claim as it is written, equal lengths, fails on the two-determinant system: three
  time points against two samples.
\<close>

theorem grid_samples_equal_length_counterexample:
  "propagate demo_env 2 0 demo_mu (Some 2) 2 = Some (Inr demo_st1)
   \<and> length (s_grid demo_st1) = 3 \<and> length (s_dipole_corr demo_st1) = 2
   \<and> length (s_grid demo_st1) \<noteq> length (s_dipole_corr demo_st1)"
  using demo_propagate by (simp add: demo_st1_def)

lemma sorted_le_last: "sorted (xs :: real list) \<Longrightarrow> x \<in> set xs \<Longrightarrow> x \<le> last xs"
  by (cases xs rule: rev_cases) (auto simp: sorted_append)

text \<open>
  C8, for a positive \<open>maxtime\<close>. When the propagation of an axis finishes: if every
  step \<open>t_lim\<close>, of the first pass and of every turn of the loop, is non-negative, the
  time grid is non-decreasing; every entry but the last is below \<open>maxtime\<close>; and the
  last entry exceeds \<open>maxtime\<close> by at most the last step \<open>t_lim\<close>.
\<close>

theorem grid_bounds:
  assumes "propagate ev nconf e mu (Some mt) fuel = Some (Inr st)" and "0 < mt"
  shows "((\<forall>s. first_pass ev e mu = Inr s \<longrightarrow> 0 \<le> s_t_lim s)
          \<and> (\<forall>s s'. loop_body ev nconf e mu s = Inr s' \<longrightarrow> 0 \<le> s_t_lim s')
          \<longrightarrow> sorted (s_grid st))
       \<and> (\<forall>x \<in> set (butlast (s_grid st)). x < mt)
       \<and> last (s_grid st) \<le> mt + s_t_lim st"
proof -
  let ?P = "\<lambda>s. \<exists>pre. s_grid s = pre @ [s_t s] \<and> pre \<noteq> []
       \<and> (\<forall>x \<in> set pre. x < mt) \<and> s_t s = last pre + s_t_lim s"
  from assms(1) obtain st0 where f: "first_pass ev e mu = Inr st0"
    and w: "while_loop ev nconf e mu mt fuel st0 = Some (Inr st)"
    by (auto elim: propagate_Some)
  have p0: "?P st0"
    using first_pass_Inr(2,3) [OF f] assms(2) by (intro exI [of _ "[0]"]) simp
  have pstep: "?P s'" if p: "?P s" and t: "s_t s < mt" and b: "loop_body ev nconf e mu s = Inr s'"
    for s s'
  proof -
    from p obtain pre where pre: "s_grid s = pre @ [s_t s]" "\<forall>x \<in> set pre. x < mt" by blast
    note lb = loop_body_Inr(2,3) [OF b]
    have "s_grid s' = (pre @ [s_t s]) @ [s_t s']" using lb(2) pre(1) by simp
    moreover have "\<forall>x \<in> set (pre @ [s_t s]). x < mt" using pre(2) t by simp
    moreover have "s_t s' = last (pre @ [s_t s]) + s_t_lim s'" using lb(1) by simp
    ultimately show ?thesis by blast
  qed
  from while_loop_invariant [OF w, of ?P] p0 pstep have "?P st" by blast
  then obtain pre where pre: "s_grid st = pre @ [s_t st]" "pre \<noteq> []"
      "\<forall>x \<in> set pre. x < mt" "s_t st = last pre + s_t_lim st"
    by blast
  from pre(2,3) have lt: "last pre < mt" by simp
  have "last (s_grid st) \<le> mt + s_t_lim st"
    using pre(1,4) lt by simp
  moreover have "\<forall>x \<in> set (butlast (s_grid st)). x < mt"
    using pre(1,3) by (simp add: butlast_append)
  ultimately have bounds: "(\<forall>x \<in> set (butlast (s_grid st)). x < mt)
      \<and> last (s_grid st) \<le> mt + s_t_lim st"
    by simp
  have "sorted (s_grid st)"
    if n0: "\<forall>s. first_pass ev e mu = Inr s \<longrightarrow> 0 \<le> s_t_lim s"
      and n: "\<forall>s s'. loop_body ev nconf e mu s = Inr s' \<longrightarrow> 0 \<le> s_t_lim s'"
  proof -
    let ?S = "\<lambda>s. sorted (s_grid s) \<and> s_grid s \<noteq> [] \<and> last (s_grid s) = s_t s"
    have "?S st0" using first_pass_Inr(2,3) [OF f] n0 f by simp
    moreover have "?S s'" if s: "?S s" and b: "loop_body ev nconf e mu s = Inr s'" for s s'
    proof -
      note lb = loop_body_Inr(2,3) [OF b]
      from n b have "0 \<le> s_t_lim s'" by blast
      with lb(1) have "s_t s \<le> s_t s'" by simp
      moreover from s have "\<forall>x \<in> set (s_grid s). x \<le> s_t s"
        using sorted_le_last [of "s_grid s"] by auto
      ultimately have "\<forall>x \<in> set (s_grid s). x \<le> s_t s'" by auto
      with s lb(2) show ?thesis by (simp add: sorted_append)
    qed
    ultimately show ?thesis
      using while_loop_invariant [OF w, of ?S] by blast
  qed
  with bounds show ?thesis by blast
qed

theorem grid_bounds_witness:
  "propagate demo_env 2 0 demo_mu (Some 2) 2 = Some (Inr demo_st1) \<and> (0::real) < 2
   \<and> sorted (s_grid demo_st1) \<and> list_all (\<lambda>x. x < 2) (butlast (s_grid demo_st1))
   \<and> last (s_grid demo_st1) \<le> 2 + s_t_lim demo_st1"
proof -
  have h: "(0::real) < 2" by simp
  have n0: "\<forall>s. first_pass demo_env 0 demo_mu = Inr s \<longrightarrow> 0 \<le> s_t_lim s"
    using first_pass_Inr(7) by (simp add: less_imp_le)
  have n: "\<forall>s s'. loop_body demo_env 2 0 demo_mu s = Inr s' \<longrightarrow> 0 \<le> s_t_lim s'"
    using loop_body_Inr(7) by (simp add: less_imp_le)
  from grid_bounds [OF demo_propagate h] n0 n demo_propagate show ?thesis
    by (simp add: list_all_iff)
qed

text \<open>
  The claim as it is written, for every \<open>maxtime\<close>, fails at \<open>maxtime = 0\<close>: the loop
  is never entered, the grid is \<open>[0, 1]\<close>, and its first entry is not below \<open>maxtime\<close>.
\<close>

theorem grid_bounds_counterexample:
  "propagate demo_env 2 0 demo_mu (Some 0) 0 = Some (Inr demo_st0)
   \<and> s_grid demo_st0 = [0, 1]
   \<and> \<not> (\<forall>x \<in> set (butlast (s_grid demo_st0)). x < 0)"
  using demo_propagate_no_time by (simp add: demo_st0_def)


subsection \<open>The amplitude vector\<close>

lemma foldE_length:
  assumes "foldE f xs s = Inr s'"
    and "\<And>x a b. f x a = Inr b \<Longrightarrow> length b = length a"
  shows "length s' = length s"
  using assms(1)
proof (induction xs arbitrary: s)
  case Nil
  then show ?case by simp
next
  case (Cons x xs)
  then obtain s1 where "f x s = Inr s1" and "foldE f xs s1 = Inr s'"
    by (auto simp: bindE_Inr_iff)
  with Cons.IH assms(2) show ?case by fastforce
qed

lemma project_dipole_length: "project_dipole A mu m = Inr v \<Longrightarrow> length v = m"
  unfolding project_dipole_def
  by (drule foldE_length) (auto simp: bindE_Inr_iff)

lemma dot_c_Inr_length: "dot_c x y = Inr s \<Longrightarrow> length x = length y"
  by (simp add: dot_c_def split: if_splits)

lemma loop_body_dimension:
  assumes "loop_body ev nconf e mu st = Inr st'"
  shows "s_len_tdiag st' = length (s_d st)"
proof -
  from assms obtain A Amu0 x where
    "project_dipole A (map complex_of_real mu) (s_len_tdiag st') = Inr Amu0"
    and "dot_c Amu0 (s_d st) = Inr x"
    by (auto simp: loop_body_def bindE_Inr_iff Let_def case_prod_beta)
  then show ?thesis
    using project_dipole_length dot_c_Inr_length by fastforce
qed

text \<open>
  C5, as the code has it. The vector \<open>d\<close> to which the propagator is applied is the
  first canonical basis vector at the first restart, and no turn of the loop assigns
  to it: the propagated amplitudes \<open>d_next\<close> only weight the Krylov basis in the
  reconstruction of the next seed. So \<open>d\<close> is the first canonical basis vector at
  every restart, also when the propagation finishes.
\<close>

theorem amplitude_vector_stays_first_basis_vector:
  "(first_pass ev e mu = Inr st0 \<longrightarrow> s_d st0 = (replicate (s_len_tdiag st0) 0)[0 := 1])
   \<and> (loop_body ev nconf e mu st = Inr st' \<longrightarrow> s_d st' = s_d st)
   \<and> (propagate ev nconf e mu maxtime fuel = Some (Inr stf) \<longrightarrow>
        s_d stf = (replicate (s_len_tdiag stf) 0)[0 := 1])"
proof (intro conjI impI)
  assume "first_pass ev e mu = Inr st0"
  then show "s_d st0 = (replicate (s_len_tdiag st0) 0)[0 := 1]"
    by (rule first_pass_Inr)
next
  assume "loop_body ev nconf e mu st = Inr st'"
  then show "s_d st' = s_d st" by (rule loop_body_Inr)
next
  assume p: "propagate ev nconf e mu maxtime fuel = Some (Inr stf)"
  let ?P = "\<lambda>s. s_d s = (replicate (s_len_tdiag s) 0)[0 := 1]"
  from p obtain s0 mt where f: "first_pass ev e mu = Inr s0"
    and w: "while_loop ev nconf e mu mt fuel s0 = Some (Inr stf)"
    by (rule propagate_Some)
  have "?P s0" using f by (rule first_pass_Inr)
  moreover have "?P s'" if "?P s" and b: "loop_body ev nconf e mu s = Inr s'" for s s'
  proof -
    from that(1) have "length (s_d s) = s_len_tdiag s" by simp
    with loop_body_dimension [OF b] loop_body_Inr(1) [OF b] that(1) show ?thesis by simp
  qed
  ultimately show "s_d stf = (replicate (s_len_tdiag stf) 0)[0 := 1]"
    using while_loop_invariant [OF w, of ?P] by blast
qed

theorem amplitude_vector_stays_first_basis_vector_witness:
  "first_pass demo_env 0 demo_mu = Inr demo_st0
   \<and> s_d demo_st0 = (replicate (s_len_tdiag demo_st0) 0)[0 := 1]
   \<and> loop_body demo_env 2 0 demo_mu demo_st0 = Inr demo_st1
   \<and> s_d demo_st1 = s_d demo_st0
   \<and> propagate demo_env 2 0 demo_mu (Some 2) 2 = Some (Inr demo_st1)
   \<and> s_d demo_st1 = (replicate (s_len_tdiag demo_st1) 0)[0 := 1]"
proof -
  note t = amplitude_vector_stays_first_basis_vector
    [of demo_env 0 demo_mu demo_st0 2 demo_st0 demo_st1 "Some 2" 2 demo_st1]
  from t demo_first_pass
  have a: "s_d demo_st0 = (replicate (s_len_tdiag demo_st0) 0)[0 := 1]" by blast
  from t demo_loop_body have b: "s_d demo_st1 = s_d demo_st0" by blast
  from t demo_propagate
  have c: "s_d demo_st1 = (replicate (s_len_tdiag demo_st1) 0)[0 := 1]" by blast
  from a b c demo_first_pass demo_loop_body demo_propagate show ?thesis by blast
qed

lemma phase_first_pass: "first_pass phase_env 0 demo_mu = Inr phase_st0"
  using first_pass_two_determinants [of phase_env phase_U]
  by (simp add: phase_env_def demo_env_def phase_st0_def)

lemma phase_matvec:
  "matvec (s_U phase_st0) (s_d phase_st0) = Inr [Complex (3 / 5) (- 4 / 5), 0]"
  by (simp add: matvec_def phase_st0_def demo_st0_def phase_U_def)

lemma phase_reconstruct: "reconstruct 2 phase_st0 = Inr [Complex (3 / 5) (- 4 / 5), 0]"
proof -
  have a: "s_A phase_st0 = [[1, 0], [0, 1]]" and l: "s_len_tdiag phase_st0 = 2"
    by (simp_all add: phase_st0_def demo_st0_def)
  have f: "foldE (\<lambda>k fcivec. bindE (nth_e [[1, 0], [0, 1]] k) (\<lambda>A_tmp.
                bindE (nth_e [Complex (3 / 5) (- 4 / 5), 0] k) (\<lambda>dk. axpy fcivec A_tmp dk)))
             [0..<2] (replicate 2 0)
           = Inr [Complex (3 / 5) (- 4 / 5), 0]"
    by (simp add: upt2 bindE_def nth_e_def axpy_def numeral_2_eq_2)
  have "(cmod (Complex (3 / 5) (- 4 / 5)))\<^sup>2 = 1"
    by (simp add: cmod_power2 power_divide)
  then have n: "norm_c [Complex (3 / 5) (- 4 / 5), 0] = 1"
    by (simp add: norm_c_def)
  show ?thesis
    unfolding reconstruct_def phase_matvec bindE_Inr a l f Let_def n by simp
qed

lemma phase_loop_body: "loop_body phase_env 2 0 demo_mu phase_st0 = Inr phase_st1"
  using loop_body_two_determinants [of phase_env phase_U phase_st0, OF _ _ _ phase_reconstruct]
  by (simp add: phase_env_def demo_env_def phase_st0_def phase_st1_def demo_st0_def demo_st1_def)

text \<open>
  The claim as it is written, the amplitudes carried forward, fails on the
  two-determinant system with a propagator that turns the first amplitude: the first
  turn of the loop produces \<open>d_next = [3/5 - 4/5 i, 0]\<close>, and the vector that the next
  turn applies its propagator to is still \<open>[1, 0]\<close>.
\<close>

theorem amplitude_carried_forward_counterexample:
  "first_pass phase_env 0 demo_mu = Inr phase_st0
   \<and> matvec (s_U phase_st0) (s_d phase_st0) = Inr [Complex (3 / 5) (- 4 / 5), 0]
   \<and> loop_body phase_env 2 0 demo_mu phase_st0 = Inr phase_st1
   \<and> s_d phase_st1 = [1, 0]
   \<and> s_d phase_st1 \<noteq> [Complex (3 / 5) (- 4 / 5), 0]"
  using phase_first_pass phase_matvec phase_loop_body
  by (simp add: phase_st1_def demo_st1_def complex_eq_iff)

subsection \<open>The ReducedHamiltonian\<close>

text \<open>
  C3 does not hold of the code. The claim wants the off-diagonal pair of every
  \<open>p < m-1\<close> filled; the loop fills it only for \<open>p < m-2\<close>. For three basis vectors
  the pair between the rows 1 and 2 stays zero where the claim wants the last
  coefficient \<open>5\<close>, on the first pass and on a restart, while the slice
  \<open>beta[0:m-1]\<close> that the first pass hands to \<open>eigh_tridiagonal\<close> has both coefficients.
\<close>

theorem reduced_hamiltonian_misses_last_beta:
  "build_Ht_first [1, 2, 3] [4, 5] = Inr [[1, 4, 0], [4, 2, 0], [0, 0, 3]]
   \<and> build_Ht_restart [1, 2, 3] [\<i>, 5] = Inr [[1, \<i>, 0], [- \<i>, 2, 0], [0, 0, 3]]
   \<and> slice_to [4, 5 :: real] (int (length [1, 2, 3 :: real]) - 1) = [4, 5]"
  by (simp add: build_Ht_first_def build_Ht_restart_def Ht_body_def bindE_def nth_e_def
      set2_def zeros2_def upt3 slice_to_def numeral_3_eq_3)


text \<open>
  The same for every dimension \<open>m \<ge> 2\<close>: whatever the coefficients are, the pair
  between the rows \<open>m-2\<close> and \<open>m-1\<close> of the matrix that the loop builds is zero.
\<close>

lemma foldE_invariant:
  assumes "foldE f xs s = Inr s'" and "Q s"
    and step: "\<And>x a b. x \<in> set xs \<Longrightarrow> Q a \<Longrightarrow> f x a = Inr b \<Longrightarrow> Q b"
  shows "Q s'"
  using assms(1,2) step
proof (induction xs arbitrary: s)
  case Nil
  then show ?case by simp
next
  case (Cons x xs)
  from Cons.prems(1) obtain s1 where 1: "f x s = Inr s1" and 2: "foldE f xs s1 = Inr s'"
    by (auto simp: bindE_Inr_iff)
  have "Q s1" by (rule Cons.prems(3) [OF _ Cons.prems(2) 1]) simp
  moreover have "Q b" if "y \<in> set xs" "Q a" "f y a = Inr b" for y a b
    using Cons.prems(3) [of y a b] that by simp
  ultimately show ?case using Cons.IH [OF 2] by blast
qed

lemma set2_length: "length (set2 M p q v) = length M"
  by (simp add: set2_def)

lemma set2_row_length: "i < length M \<Longrightarrow> length (set2 M p q v ! i) = length (M ! i)"
  by (cases "i = p") (simp_all add: set2_def)

lemma set2_nth:
  "i < length M \<Longrightarrow> j < length (M ! i) \<Longrightarrow>
   set2 M p q v ! i ! j = (if i = p \<and> j = q then v else M ! i ! j)"
  by (cases "i = p"; cases "j = q") (simp_all add: set2_def)


lemma set2_keeps_last_pair:
  assumes m: "2 \<le> m"
    and len: "length M = m" and rows: "list_all (\<lambda>row. length row = m) M"
    and z: "M ! (m - 2) ! (m - 1) = 0" "M ! (m - 1) ! (m - 2) = 0"
    and ne: "\<not> (i = m - 2 \<and> j = m - 1)" "\<not> (i = m - 1 \<and> j = m - 2)"
  shows "length (set2 M i j v) = m \<and> list_all (\<lambda>row. length row = m) (set2 M i j v)
      \<and> set2 M i j v ! (m - 2) ! (m - 1) = 0 \<and> set2 M i j v ! (m - 1) ! (m - 2) = 0"
proof -
  have k: "m - 2 < length M" "m - 1 < length M" using m len by simp_all
  have r: "m - 1 < length (M ! (m - 2))" "m - 2 < length (M ! (m - 1))"
    using rows k m by (simp_all add: list_all_length)
  have "set2 M i j v ! (m - 2) ! (m - 1) = 0"
    using set2_nth [OF k(1) r(1), of i j v] z(1) ne(1) by auto
  moreover have "set2 M i j v ! (m - 1) ! (m - 2) = 0"
    using set2_nth [OF k(2) r(2), of i j v] z(2) ne(2) by auto
  moreover have "length (set2 M i j v) = m" "list_all (\<lambda>row. length row = m) (set2 M i j v)"
    using len rows by (simp_all add: set2_length set2_row_length list_all_length)
  ultimately show ?thesis by simp
qed

lemma Ht_body_keeps_last_pair:
  assumes b: "Ht_body cj alpha beta m p a = Inr b" and m: "2 \<le> m"
    and q: "length a = m \<and> list_all (\<lambda>row. length row = m) a
      \<and> a ! (m - 2) ! (m - 1) = 0 \<and> a ! (m - 1) ! (m - 2) = 0"
  shows "length b = m \<and> list_all (\<lambda>row. length row = m) b
      \<and> b ! (m - 2) ! (m - 1) = 0 \<and> b ! (m - 1) ! (m - 2) = 0"
proof -
  have d: "\<not> (p = m - 2 \<and> p = m - 1)" using m by auto
  have step: "length (set2 M i j v) = m \<and> list_all (\<lambda>row. length row = m) (set2 M i j v)
      \<and> set2 M i j v ! (m - 2) ! (m - 1) = 0 \<and> set2 M i j v ! (m - 1) ! (m - 2) = 0"
    if "length M = m \<and> list_all (\<lambda>row. length row = m) M
      \<and> M ! (m - 2) ! (m - 1) = 0 \<and> M ! (m - 1) ! (m - 2) = 0"
      and "\<not> (i = m - 2 \<and> j = m - 1)" "\<not> (i = m - 1 \<and> j = m - 2)"
    for M :: "'a list list" and i j v
    using set2_keeps_last_pair [OF m, of M i j v] that by blast
  show ?thesis
  proof (cases "int p < int m - 2")
    case False
    with b obtain x where bb: "b = set2 a p p x"
      by (auto simp: Ht_body_def bindE_Inr_iff Let_def)
    show ?thesis unfolding bb using step [of a p p x] q d by auto
  next
    case True
    with b obtain x y where bb: "b = set2 (set2 (set2 a p p x) p (p + 1) y) (p + 1) p (cj y)"
      by (auto simp: Ht_body_def bindE_Inr_iff Let_def)
    from True have ne: "p \<noteq> m - 2" "p + 1 \<noteq> m - 1" "p \<noteq> m - 1" by auto
    have 1: "length (set2 a p p x) = m \<and> list_all (\<lambda>row. length row = m) (set2 a p p x)
      \<and> set2 a p p x ! (m - 2) ! (m - 1) = 0 \<and> set2 a p p x ! (m - 1) ! (m - 2) = 0"
      using step [of a p p x] q ne by auto
    have 2: "length (set2 (set2 a p p x) p (p + 1) y) = m
      \<and> list_all (\<lambda>row. length row = m) (set2 (set2 a p p x) p (p + 1) y)
      \<and> set2 (set2 a p p x) p (p + 1) y ! (m - 2) ! (m - 1) = 0
      \<and> set2 (set2 a p p x) p (p + 1) y ! (m - 1) ! (m - 2) = 0"
      using step [of "set2 a p p x" p "p + 1" y] 1 ne by auto
    show ?thesis
      unfolding bb using step [of "set2 (set2 a p p x) p (p + 1) y" "p + 1" p "cj y"] 2 ne
      by auto
  qed
qed

lemma Ht_last_pair_zero:
  assumes "foldE (Ht_body cj alpha beta m) [0..<m] (zeros2 m m) = Inr Ht" and "2 \<le> m"
  shows "Ht ! (m - 2) ! (m - 1) = 0 \<and> Ht ! (m - 1) ! (m - 2) = 0"
proof -
  let ?Q = "\<lambda>M. length M = m \<and> list_all (\<lambda>row. length row = m) M
      \<and> M ! (m - 2) ! (m - 1) = 0 \<and> M ! (m - 1) ! (m - 2) = 0"
  have "?Q (zeros2 m m)"
    using assms(2) by (simp add: zeros2_def list_all_length)
  moreover have "?Q b" if "?Q a" and "Ht_body cj alpha beta m p a = Inr b" for p a b
    using Ht_body_keeps_last_pair [OF that(2) assms(2) that(1)] .
  ultimately have "?Q Ht"
    using foldE_invariant [OF assms(1), of ?Q] by blast
  then show ?thesis by simp
qed

lemma build_Ht_last_pair_zero:
  "build_Ht_first alpha beta = Inr Ht \<Longrightarrow> 2 \<le> length alpha \<Longrightarrow>
     Ht ! (length alpha - 2) ! (length alpha - 1) = 0
     \<and> Ht ! (length alpha - 1) ! (length alpha - 2) = 0"
  "build_Ht_restart alpha' beta' = Inr Ht' \<Longrightarrow> 2 \<le> length alpha' \<Longrightarrow>
     Ht' ! (length alpha' - 2) ! (length alpha' - 1) = 0
     \<and> Ht' ! (length alpha' - 1) ! (length alpha' - 2) = 0"
  using Ht_last_pair_zero
  by (simp_all add: build_Ht_first_def build_Ht_restart_def Let_def)


subsection \<open>What \<open>kernel_lanczos\<close> returns\<close>

lemma pspace_stage_early_length:
  assumes "pspace_stage sy a = Inr (Some early)"
  shows "length early = 2"
  using assms
  by (auto simp: pspace_stage_def bindE_Inr_iff Let_def split: if_splits option.splits)

lemma str_axis_2: "str_axis 2 = ''2''"
  by (simp add: str_axis_def)

lemma axis_body_skip: "i < 2 \<Longrightarrow> axis_body sy ev a e c fuel i ax = Some (Inr ax)"
  by (simp add: axis_body_def)

lemma axes_loop_third_axis:
  "axes_loop sy ev a e c fuel [0..<3] ax = axis_body sy ev a e c fuel 2 ax"
  by (simp add: upt3 axis_body_skip split: option.splits sum.splits)

lemma lanczos_stage_Inr:
  assumes "lanczos_stage sy ev a fuel = Some (Inr r)"
  shows "\<exists>e0 c0 mu st.
      FCIBase_eig sy (min (sys_na sy * sys_nb sy) (a_nroots a)) = Inr (One e0 c0)
    \<and> normalise_dipole (sys_dipole sy 2 c0) = Some mu
    \<and> propagate ev (length c0) e0 mu (a_maxtime a) fuel = Some (Inr st)
    \<and> kr_ret r = [Float e0, RealArray (s_grid st), ComplexArray (s_dipole_corr st)]
    \<and> kr_files r = [(''dip_2.npy'', VectorList (s_list_left st)),
                      (''Ht_2.npy'', MatrixList (s_list_htdiag st)),
                      (''lan_nodes_2.txt'', RealArray (s_grid st))]"
proof -
  let ?n = "min (sys_na sy * sys_nb sy) (a_nroots a)"
  let ?ax0 = "\<lparr> ax_grid = None, ax_dipole_corr = None, ax_files = [] \<rparr>"
  from assms obtain e0 c0 where g: "FCIBase_eig sy ?n = Inr (One e0 c0)"
    by (auto simp: lanczos_stage_def Let_def split: sum.splits eig_result.splits)
  with assms obtain ax where ax: "axis_body sy ev a e0 c0 fuel 2 ?ax0 = Some (Inr ax)"
    and r: "(case (ax_grid ax, ax_dipole_corr ax) of
               (Some grid, Some dipole_corr) \<Rightarrow>
                 Some (Inr \<lparr> kr_ret = [Float e0, RealArray grid, ComplexArray dipole_corr],
                             kr_files = ax_files ax \<rparr>)
             | _ \<Rightarrow> Some (Inl UnboundLocalError)) = Some (Inr r)"
    by (auto simp: lanczos_stage_def Let_def axes_loop_third_axis
        split: if_splits option.splits sum.splits)
  from ax obtain mu st where mu: "normalise_dipole (sys_dipole sy 2 c0) = Some mu"
    and p: "propagate ev (length c0) e0 mu (a_maxtime a) fuel = Some (Inr st)"
    and axv: "ax = \<lparr> ax_grid = Some (s_grid st), ax_dipole_corr = Some (s_dipole_corr st),
                     ax_files = [(''dip_2.npy'', VectorList (s_list_left st)),
                                 (''Ht_2.npy'', MatrixList (s_list_htdiag st)),
                                 (''lan_nodes_2.txt'', RealArray (s_grid st))] \<rparr>"
    by (auto simp: axis_body_def str_axis_2 split: option.splits sum.splits)
  from r axv have "r = \<lparr> kr_ret = [Float e0, RealArray (s_grid st), ComplexArray (s_dipole_corr st)],
                         kr_files = [(''dip_2.npy'', VectorList (s_list_left st)),
                                     (''Ht_2.npy'', MatrixList (s_list_htdiag st)),
                                     (''lan_nodes_2.txt'', RealArray (s_grid st))] \<rparr>"
    by simp
  with g mu p show ?thesis by auto
qed

lemma kernel_lanczos_Inr:
  assumes "kernel_lanczos sy ev a fuel = Some (Inr r)"
  shows "(pspace_stage sy a = Inr (Some (kr_ret r)) \<and> kr_files r = [])
       \<or> (pspace_stage sy a = Inr None \<and> lanczos_stage sy ev a fuel = Some (Inr r))"
  using assms by (auto simp: kernel_lanczos_def split: sum.splits option.splits)

lemma kernel_lanczos_components:
  assumes "kernel_lanczos sy ev a fuel = Some (Inr r)"
  shows "length (kr_ret r) = 2 \<or> length (kr_ret r) = 3"
  using kernel_lanczos_Inr [OF assms] pspace_stage_early_length lanczos_stage_Inr
  by fastforce

text \<open>
  For every system and every argument, \<open>FCIBase.kernel\<close> does not return: what
  \<open>kernel_lanczos\<close> hands back has two or three components, never five.
\<close>

lemma FCIBase_kernel_never_returns: "FCIBase_kernel sy ev a fuel \<noteq> Some (Inr x)"
proof
  assume k: "FCIBase_kernel sy ev a fuel = Some (Inr x)"
  then obtain r where r: "kernel_lanczos sy ev a fuel = Some (Inr r)" and "length (kr_ret r) = 5"
    by (auto simp: FCIBase_kernel_def split: option.splits sum.splits list.splits)
  with kernel_lanczos_components [OF r] show False by simp
qed

lemma demo_pspace_stage: "pspace_stage demo_sys demo_args = Inr None"
  by (simp add: pspace_stage_def demo_sys_def demo_args_def Let_def)

lemma demo_eig: "FCIBase_eig demo_sys 1 = Inr (One 0 [4 / 5, - 3 / 5])"
  by (simp add: FCIBase_eig_def demo_sys_def bindE_def nth_e_def)

lemma demo_normalise: "normalise_dipole [2, 0] = Some demo_mu"
proof -
  have "norm_r [2, 0] = 2" by (simp add: norm_r_def)
  then show ?thesis by (simp add: normalise_dipole_def demo_mu_def)
qed

lemma demo_lanczos_stage: "lanczos_stage demo_sys demo_env demo_args 2 = Some (Inr demo_result)"
proof -
  have n: "min (sys_na demo_sys * sys_nb demo_sys) (a_nroots demo_args) = 1"
    by (simp add: demo_sys_def demo_args_def)
  have m: "sys_mol_given demo_sys" by (simp add: demo_sys_def)
  have d: "sys_dipole demo_sys 2 c = [2, 0]" for c by (simp add: demo_sys_def)
  have t: "a_maxtime demo_args = Some 2" by (simp add: demo_args_def)
  have l: "length [4 / 5, - 3 / 5 :: real] = 2" by simp
  have "axis_body demo_sys demo_env demo_args 0 [4 / 5, - 3 / 5] 2 2
          \<lparr> ax_grid = None, ax_dipole_corr = None, ax_files = [] \<rparr>
        = Some (Inr \<lparr> ax_grid = Some (s_grid demo_st1),
                      ax_dipole_corr = Some (s_dipole_corr demo_st1),
                      ax_files = [(''dip_2.npy'', VectorList (s_list_left demo_st1)),
                                  (''Ht_2.npy'', MatrixList (s_list_htdiag demo_st1)),
                                  (''lan_nodes_2.txt'', RealArray (s_grid demo_st1))] \<rparr>)"
    unfolding axis_body_def d demo_normalise t l by (simp add: str_axis_2 demo_propagate)
  then show ?thesis
    unfolding lanczos_stage_def n Let_def demo_eig axes_loop_third_axis
    by (simp add: m demo_result_def demo_st1_def)
qed

lemma demo_kernel_lanczos: "kernel_lanczos demo_sys demo_env demo_args 2 = Some (Inr demo_result)"
  by (simp add: kernel_lanczos_def demo_pspace_stage demo_lanczos_stage)

text \<open>
  C1 does not hold of the code. On the two-determinant system \<open>kernel_lanczos\<close>
  returns the three components \<open>e\<close>, \<open>grid\<close> and \<open>dipole_corr\<close>; the per-restart
  projections and ReducedHamiltonians are written to the files and are not returned.
  \<open>FCIBase.kernel\<close> unpacks five components and raises ValueError.
\<close>

theorem kernel_unpacks_five_of_three:
  "kernel_lanczos demo_sys demo_env demo_args 2 = Some (Inr demo_result)
   \<and> kr_ret demo_result = [Float 0, RealArray [0, 1, 9 / 4], ComplexArray [1, 1]]
   \<and> FCIBase_kernel demo_sys demo_env demo_args 2 = Some (Inl ValueError)"
  by (simp add: FCIBase_kernel_def demo_kernel_lanczos) (simp add: demo_result_def)

text \<open>
  C2. The body of the axis loop leaves everything as it is for the axes 0 and 1, for
  every environment: no sample is appended and no file written, and nothing depends
  on a Krylov basis. A result of \<open>kernel_lanczos\<close> is either the early return of the
  pspace stage, with no file written, or the ground energy with the time grid and the
  correlation samples of the propagation on the third dipole vector, and the three
  files written are those of axis 2.
\<close>

theorem only_third_axis_is_propagated:
  "axis_body sy ev a e c fuel 0 ax = Some (Inr ax)
   \<and> axis_body sy ev a e c fuel 1 ax = Some (Inr ax)
   \<and> (kernel_lanczos sy ev a fuel = Some (Inr r) \<longrightarrow>
        (pspace_stage sy a = Inr (Some (kr_ret r)) \<and> kr_files r = [])
      \<or> (\<exists>e0 c0 mu st.
            FCIBase_eig sy (min (sys_na sy * sys_nb sy) (a_nroots a)) = Inr (One e0 c0)
          \<and> normalise_dipole (sys_dipole sy 2 c0) = Some mu
          \<and> propagate ev (length c0) e0 mu (a_maxtime a) fuel = Some (Inr st)
          \<and> kr_ret r = [Float e0, RealArray (s_grid st), ComplexArray (s_dipole_corr st)]
          \<and> kr_files r = [(''dip_2.npy'', VectorList (s_list_left st)),
                            (''Ht_2.npy'', MatrixList (s_list_htdiag st)),
                            (''lan_nodes_2.txt'', RealArray (s_grid st))]))"
proof (intro conjI impI)
  assume "kernel_lanczos sy ev a fuel = Some (Inr r)"
  from kernel_lanczos_Inr [OF this] lanczos_stage_Inr [of sy ev a fuel r]
  show "(pspace_stage sy a = Inr (Some (kr_ret r)) \<and> kr_files r = [])
      \<or> (\<exists>e0 c0 mu st.
            FCIBase_eig sy (min (sys_na sy * sys_nb sy) (a_nroots a)) = Inr (One e0 c0)
          \<and> normalise_dipole (sys_dipole sy 2 c0) = Some mu
          \<and> propagate ev (length c0) e0 mu (a_maxtime a) fuel = Some (Inr st)
          \<and> kr_ret r = [Float e0, RealArray (s_grid st), ComplexArray (s_dipole_corr st)]
          \<and> kr_files r = [(''dip_2.npy'', VectorList (s_list_left st)),
                            (''Ht_2.npy'', MatrixList (s_list_htdiag st)),
                            (''lan_nodes_2.txt'', RealArray (s_grid st))])"
    by blast
qed (simp_all add: axis_body_skip)

theorem only_third_axis_is_propagated_witness:
  "kernel_lanczos demo_sys demo_env demo_args 2 = Some (Inr demo_result)
   \<and> pspace_stage demo_sys demo_args = Inr None
   \<and> axis_body demo_sys demo_env demo_args 0 [4 / 5, - 3 / 5] 2 0
       \<lparr> ax_grid = None, ax_dipole_corr = None, ax_files = [] \<rparr> = Some (Inr \<lparr> ax_grid = None, ax_dipole_corr = None, ax_files = [] \<rparr>)
   \<and> axis_body demo_sys demo_env demo_args 0 [4 / 5, - 3 / 5] 2 1
       \<lparr> ax_grid = None, ax_dipole_corr = None, ax_files = [] \<rparr> = Some (Inr \<lparr> ax_grid = None, ax_dipole_corr = None, ax_files = [] \<rparr>)
   \<and> (\<exists>st. propagate demo_env 2 0 demo_mu (Some 2) 2 = Some (Inr st)
         \<and> kr_ret demo_result = [Float 0, RealArray (s_grid st), ComplexArray (s_dipole_corr st)]
         \<and> kr_files demo_result = [(''dip_2.npy'', VectorList (s_list_left st)),
                                    (''Ht_2.npy'', MatrixList (s_list_htdiag st)),
                                    (''lan_nodes_2.txt'', RealArray (s_grid st))])"
proof -
  note t = only_third_axis_is_propagated
    [of demo_sys demo_env demo_args 0 "[4 / 5, - 3 / 5]" 2
     "\<lparr> ax_grid = None, ax_dipole_corr = None, ax_files = [] \<rparr>" demo_result]
  have n: "min (sys_na demo_sys * sys_nb demo_sys) (a_nroots demo_args) = 1"
    by (simp add: demo_sys_def demo_args_def)
  have d: "sys_dipole demo_sys 2 c = [2, 0]" for c by (simp add: demo_sys_def)
  have m: "a_maxtime demo_args = Some 2" by (simp add: demo_args_def)
  from t demo_kernel_lanczos demo_pspace_stage
  obtain e0 c0 mu st where
    g: "FCIBase_eig demo_sys 1 = Inr (One e0 c0)" and
    u: "normalise_dipole (sys_dipole demo_sys 2 c0) = Some mu" and
    p: "propagate demo_env (length c0) e0 mu (a_maxtime demo_args) 2 = Some (Inr st)" and
    r: "kr_ret demo_result = [Float e0, RealArray (s_grid st), ComplexArray (s_dipole_corr st)]"
       "kr_files demo_result = [(''dip_2.npy'', VectorList (s_list_left st)),
                                (''Ht_2.npy'', MatrixList (s_list_htdiag st)),
                                (''lan_nodes_2.txt'', RealArray (s_grid st))]"
    unfolding n by auto
  from g demo_eig have e: "e0 = 0" "c0 = [4 / 5, - 3 / 5]" by simp_all
  from u demo_normalise have "mu = demo_mu" by (simp add: d)
  with p e have "propagate demo_env 2 0 demo_mu (Some 2) 2 = Some (Inr st)"
    by (simp add: m numeral_2_eq_2)
  with r e have "\<exists>st. propagate demo_env 2 0 demo_mu (Some 2) 2 = Some (Inr st)
         \<and> kr_ret demo_result = [Float 0, RealArray (s_grid st), ComplexArray (s_dipole_corr st)]
         \<and> kr_files demo_result = [(''dip_2.npy'', VectorList (s_list_left st)),
                                    (''Ht_2.npy'', MatrixList (s_list_htdiag st)),
                                    (''lan_nodes_2.txt'', RealArray (s_grid st))]"
    by blast
  with t demo_kernel_lanczos demo_pspace_stage show ?thesis by blast
qed


subsection \<open>The near-degenerate pspace\<close>

text \<open>
  C9. With a pspace that covers the whole space, no initial guess, the direct solver
  allowed, one root, more than one determinant and two lowest pspace eigenvalues that
  differ by less than \<open>1e-12\<close>, the pspace stage never returns the sliced eigenvector.
  Unless the \<open>nelec\<close> assertion or the rejection of complex integrals, which come
  before the stage, stop the call, \<open>kernel_ms1\<close> and \<open>kernel_lanczos\<close> both go on with
  the Davidson iteration.
\<close>

theorem degenerate_pspace_goes_to_davidson:
  assumes "int (sys_na sy * sys_nb sy) \<le> a_pspace_size a"
    and "\<not> a_ci0_given a" and "\<not> a_davidson_only a" and "a_nroots a = 1"
    and "1 < sys_na sy * sys_nb sy"
    and "2 \<le> length (sys_pw sy)"
    and "\<bar>sys_pw sy ! 0 - sys_pw sy ! 1\<bar> < 1 / 10 ^ 12"
  shows "pspace_stage sy a \<noteq> Inr (Some early)
       \<and> (sys_nelec_ok sy \<and> \<not> sys_complex_hamiltonian sy \<longrightarrow>
            pspace_stage sy a = Inr None
          \<and> kernel_ms1 sy a = ms1_davidson sy a
          \<and> kernel_lanczos sy ev a fuel = lanczos_stage sy ev a fuel)"
proof -
  from assms(5) have "0 < int (sys_na sy * sys_nb sy)" by linarith
  with assms(1) have p: "0 < a_pspace_size a" by linarith
  from assms(4,5) have n: "min (sys_na sy * sys_nb sy) (a_nroots a) = 1" by simp
  from assms(6) have w: "pw_at (Some (sys_pw sy)) 0 = Inr (sys_pw sy ! 0)"
    "pw_at (Some (sys_pw sy)) (Suc 0) = Inr (sys_pw sy ! Suc 0)"
    by (auto simp: pw_at_def nth_e_def)
  from assms(7) have d: "\<not> 1 / 10 ^ 12 < \<bar>sys_pw sy ! 0 - sys_pw sy ! 1\<bar>" by simp
  have s: "pspace_stage sy a = Inr None"
    if "sys_nelec_ok sy" and "\<not> sys_complex_hamiltonian sy"
    unfolding pspace_stage_def Let_def n
    using that assms(1-3,5) p d by (auto simp: w bindE_Inr)
  have "pspace_stage sy a \<noteq> Inr (Some early)"
  proof (cases "sys_nelec_ok sy \<and> \<not> sys_complex_hamiltonian sy")
    case True
    with s show ?thesis by simp
  next
    case False
    then show ?thesis by (auto simp: pspace_stage_def)
  qed
  with s show ?thesis
    by (simp add: kernel_ms1_def kernel_lanczos_def bindE_Inr)
qed

theorem degenerate_pspace_goes_to_davidson_witness:
  "int (sys_na degenerate_sys * sys_nb degenerate_sys) \<le> a_pspace_size direct_args
   \<and> \<not> a_ci0_given direct_args \<and> \<not> a_davidson_only direct_args \<and> a_nroots direct_args = 1
   \<and> 1 < sys_na degenerate_sys * sys_nb degenerate_sys
   \<and> 2 \<le> length (sys_pw degenerate_sys)
   \<and> \<bar>sys_pw degenerate_sys ! 0 - sys_pw degenerate_sys ! 1\<bar> < 1 / 10 ^ 12
   \<and> sys_nelec_ok degenerate_sys \<and> \<not> sys_complex_hamiltonian degenerate_sys
   \<and> pspace_stage degenerate_sys direct_args = Inr None
   \<and> kernel_ms1 degenerate_sys direct_args = ms1_davidson degenerate_sys direct_args
   \<and> kernel_lanczos degenerate_sys demo_env direct_args 2
       = lanczos_stage degenerate_sys demo_env direct_args 2"
proof -
  have h: "int (sys_na degenerate_sys * sys_nb degenerate_sys) \<le> a_pspace_size direct_args"
    "\<not> a_ci0_given direct_args" "\<not> a_davidson_only direct_args" "a_nroots direct_args = 1"
    "1 < sys_na degenerate_sys * sys_nb degenerate_sys"
    "2 \<le> length (sys_pw degenerate_sys)"
    "\<bar>sys_pw degenerate_sys ! 0 - sys_pw degenerate_sys ! 1\<bar> < 1 / 10 ^ 12"
    and v: "sys_nelec_ok degenerate_sys" "\<not> sys_complex_hamiltonian degenerate_sys"
    by (simp_all add: degenerate_sys_def direct_args_def demo_sys_def demo_args_def)
  from degenerate_pspace_goes_to_davidson [OF h, of _ demo_env 2] h v show ?thesis by blast
qed

text \<open>
  For comparison, the same arguments on the system with the distinct eigenvalues \<open>0\<close>
  and \<open>1/800\<close> do take the shortcut and return the pspace eigenvector.
\<close>

lemma distinct_pspace_returns_early:
  "pspace_stage demo_sys direct_args = Inr (Some [Float 0, RealArray [4 / 5, - 3 / 5]])"
  by (simp add: pspace_stage_def demo_sys_def direct_args_def demo_args_def Let_def pw_at_def
      pv_col_def nth_e_def column_def scatter_def bindE_def numeral_2_eq_2)

subsection \<open>The \<open>energy\<close> method\<close>

lemma no_contract_2e_complex:
  "''contract_2e_complex'' \<notin> set FCIBase_namespace"
  "''contract_2e_complex'' \<notin> set FCISolver_namespace"
  "''contract_2e_complex'' \<notin> set init_instance_dict"
  by (simp_all add: FCIBase_namespace_def FCISolver_namespace_def init_instance_dict_def)

text \<open>
  C10, for the calls that get as far as the lookup. When \<open>_unpack_nelec\<close> returns and
  the integrals are real, and neither the classes above \<open>FCIBase\<close> nor the instance
  bind the name \<open>contract_2e_complex\<close>, the \<open>energy\<close> method raises AttributeError,
  whatever the other arguments are; the module-level \<open>energy\<close> gives the value of the
  contraction on the same arguments.
\<close>

theorem energy_method_raises_AttributeError:
  assumes "en_unpack_nelec call = Inr nelec"
    and "en_h1e_dtype call = Float64" and "en_eri_dtype call = Float64"
    and "''contract_2e_complex'' \<notin> set supers"
    and "''contract_2e_complex'' \<notin> set inst"
  shows "FCIBase_energy supers inst call = Inl AttributeError
       \<and> energy call = en_dot call (en_h2e call)"
  using assms no_contract_2e_complex
  by (simp add: FCIBase_energy_def energy_def absorb_h1e_def has_attribute_def bindE_Inr)

theorem energy_method_raises_AttributeError_witness:
  "en_unpack_nelec real_call = Inr (1, 1)
   \<and> en_h1e_dtype real_call = Float64 \<and> en_eri_dtype real_call = Float64
   \<and> FCIBase_energy [''check_sanity''] init_instance_dict real_call = Inl AttributeError
   \<and> energy real_call = Inr 0"
proof -
  have h: "en_unpack_nelec real_call = Inr (1, 1)"
    "en_h1e_dtype real_call = Float64" "en_eri_dtype real_call = Float64"
    "''contract_2e_complex'' \<notin> set [''check_sanity'']"
    "''contract_2e_complex'' \<notin> set init_instance_dict"
    by (simp_all add: real_call_def init_instance_dict_def)
  from energy_method_raises_AttributeError [OF h] h show ?thesis
    by (simp add: real_call_def)
qed

text \<open>
  The claim as it is written, for all arguments, fails on complex one-electron
  integrals: \<open>absorb_h1e\<close> rejects them with NotImplementedError before the missing
  method is looked up.
\<close>

theorem energy_method_complex_counterexample:
  "FCIBase_energy [''check_sanity''] init_instance_dict complex_call = Inl NotImplementedError
   \<and> FCIBase_energy [''check_sanity''] init_instance_dict complex_call \<noteq> Inl AttributeError"
  by (simp add: FCIBase_energy_def complex_call_def absorb_h1e_def bindE_def)


subsection \<open>The adaptive time step\<close>

lemma norm_c_conjugate:
  "norm_c (map2 (\<lambda>a b. complex_of_real a * cnj b) (map f v) (map g T))
   = norm_c (map2 (\<lambda>x row. complex_of_real (f x) * g row) v T)"
proof -
  have "sum_list (map (\<lambda>z. (cmod z)\<^sup>2) (map2 (\<lambda>a b. complex_of_real a * cnj b) (map f v) (map g T)))
      = sum_list (map (\<lambda>z. (cmod z)\<^sup>2) (map2 (\<lambda>x row. complex_of_real (f x) * g row) v T))"
  proof (induction v arbitrary: T)
    case Nil
    then show ?case by simp
  next
    case (Cons x v)
    then show ?case by (cases T) (simp_all add: norm_mult)
  qed
  then show ?thesis by (simp add: norm_c_def)
qed

text \<open>What \<open>time_limit\<close> returns is the formula of the specification on its arguments.\<close>

lemma time_limit_is_spec:
  assumes "time_limit T w (1 / 10 ^ 6) m = Inr x"
  shows "x = t_lim_spec w T m"
proof -
  from assms have m: "m \<noteq> 0" "m \<noteq> 1"
    by (auto simp: time_limit_def bindE_Inr_iff Let_def split: if_splits)
  with assms have
    "x = (fact (m - 1) / norm_c (map2 (\<lambda>a b. complex_of_real a * cnj b)
              (map (\<lambda>x. x ^ (m - 1)) w) (map (\<lambda>row. row ! (m - 1)) T)))
            powr (1 / real (m - 1)) * (1 / 10 ^ 6) powr (0.5 / real (m - 1))"
    by (auto simp: time_limit_def bindE_Inr_iff Let_def column_def split: if_splits)
  then show ?thesis
    unfolding t_lim_spec_def norm_c_conjugate by simp
qed

text \<open>
  On arguments of the shapes that scipy returns, with \<open>2 \<le> m \<le> 171\<close> and a non-zero
  norm, \<open>time_limit\<close> returns the formula, also for complex eigenvectors: it conjugates
  the column, which leaves the norm as it is.
\<close>

lemma time_limit_value:
  assumes "2 \<le> m" and "m - 1 \<le> 170"
    and "list_all (\<lambda>row. m - 1 < length row) T" and "length w = length T"
    and "norm_c (map2 (\<lambda>x row. complex_of_real (x ^ (m - 1)) * row ! (m - 1)) w T) \<noteq> 0"
  shows "time_limit T w (1 / 10 ^ 6) m = Inr (t_lim_spec w T m)"
  using assms
  by (simp add: time_limit_def column_def bindE_Inr Let_def norm_c_conjugate t_lim_spec_def)

text \<open>
  The step of the first pass is the formula on the eigenvalues and eigenvectors that
  \<open>eigh_tridiagonal\<close> returns for \<open>alpha\<close> and \<open>beta[0:m-1]\<close>, line 832.
\<close>

lemma first_pass_step:
  assumes "first_pass ev e mu = Inr st0"
    and "lanczos_real ev mu = (A, alpha, beta)"
    and "eigh_tridiagonal ev (slice_to alpha (int (length alpha)))
           (slice_to beta (int (length alpha) - 1)) = (w, T)"
  shows "s_len_tdiag st0 = length alpha"
    and "s_t_lim st0 = t_lim_spec w (map (map complex_of_real) T) (length alpha)"
proof -
  from assms have n: "s_len_tdiag st0 = length alpha"
    and "time_limit (map (map complex_of_real) T) w (1 / 10 ^ 6) (s_len_tdiag st0)
           = Inr (s_t_lim st0)"
    by (auto simp: first_pass_def bindE_Inr_iff Let_def)
  from time_limit_is_spec [OF this(2)] n
  show "s_len_tdiag st0 = length alpha"
    and "s_t_lim st0 = t_lim_spec w (map (map complex_of_real) T) (length alpha)"
    by simp_all
qed

text \<open>
  The step of a restart is the formula on the eigenvalues of the matrix built at that
  restart and on the real parts of its eigenvectors, line 892.
\<close>

lemma restart_step:
  assumes "loop_body ev nconf e mu st = Inr st'" and "eigh ev (s_Ht st') = (w, T)"
  shows "s_t_lim st' = t_lim_spec w (map (map (\<lambda>z. complex_of_real (Re z))) T) (s_len_tdiag st')"
proof -
  from assms have
    "time_limit (map (map (\<lambda>z. complex_of_real (Re z))) T) w (1 / 10 ^ 6) (s_len_tdiag st')
       = Inr (s_t_lim st')"
    by (auto simp: loop_body_def bindE_Inr_iff Let_def case_prod_beta)
  then show ?thesis by (rule time_limit_is_spec)
qed

subsection \<open>A restart with complex eigenvectors\<close>

lemma herm_Ht_built: "build_Ht_restart herm_alpha herm_beta = Inr herm_Ht"
  by (simp add: build_Ht_restart_def herm_alpha_def herm_beta_def Ht_body_def bindE_def nth_e_def
      set2_def zeros2_def upt3 herm_Ht_def numeral_3_eq_3 complex_eq_iff)

text \<open>The columns of \<open>herm_T\<close> are eigenvectors of \<open>herm_Ht\<close> for the eigenvalues \<open>herm_w\<close>.\<close>

lemma herm_eigenpairs:
  "matvec herm_Ht [0, 0, 1] = Inr (map (\<lambda>z. - 1 * z) [0, 0, 1])"
  "matvec herm_Ht [4 / 5, Complex 0 (- 3 / 5), 0] = Inr (map (\<lambda>z. 1 * z) [4 / 5, Complex 0 (- 3 / 5), 0])"
  "matvec herm_Ht [3 / 5, Complex 0 (4 / 5), 0] = Inr (map (\<lambda>z. 2 * z) [3 / 5, Complex 0 (4 / 5), 0])"
  "column herm_T 0 = Inr [0, 0, 1]"
  "column herm_T 1 = Inr [4 / 5, Complex 0 (- 3 / 5), 0]"
  "column herm_T 2 = Inr [3 / 5, Complex 0 (4 / 5), 0]"
  by (simp_all add: matvec_def herm_Ht_def herm_T_def column_def complex_eq_iff)

lemma norm_c_triple: "0 \<le> x \<Longrightarrow> norm_c [complex_of_real x, 0, 0] = x"
  by (simp add: norm_c_def)

lemma herm_time_limit:
  "time_limit (map (map (\<lambda>z. complex_of_real (Re z))) herm_T) herm_w (1 / 10 ^ 6) 3
     = Inr herm_t_lim"
proof -
  have n: "norm_c [3 / 5, 0, 0] = 3 / 5"
    using norm_c_triple [of "3 / 5"] by simp
  have h: "(5 / 10 :: real) / 2 = 1 / 4" by simp
  show ?thesis
    by (simp add: time_limit_def column_def bindE_def n Let_def herm_T_def herm_w_def
        herm_t_lim_def fact_numeral h)
qed

lemma herm_spec: "t_lim_spec herm_w herm_T 3 = 2 powr (1 / 2) * (1 / 10 ^ 6) powr (1 / 4)"
proof -
  have "sum_list (map (\<lambda>z. (cmod z)\<^sup>2) [3 / 5, Complex 0 (4 / 5), 0]) = 1"
    by (simp add: cmod_power2 power_divide)
  then have n: "norm_c [3 / 5, Complex 0 (4 / 5), 0] = 1"
    by (simp add: norm_c_def)
  have h: "(5 / 10 :: real) / 2 = 1 / 4" by simp
  show ?thesis
    by (simp add: t_lim_spec_def herm_T_def herm_w_def n fact_numeral h)
qed

lemma herm_reconstruct: "reconstruct 3 herm_st0 = Inr [1, 0, 0]"
proof -
  have mv: "matvec herm_I [1, 0, 0] = Inr [1, 0, 0]"
    by (simp add: matvec_def herm_I_def)
  have f: "foldE (\<lambda>k fcivec. bindE (nth_e herm_I k) (\<lambda>A_tmp.
                bindE (nth_e [1, 0, 0] k) (\<lambda>dk. axpy fcivec A_tmp dk))) [0..<3] (replicate 3 0)
           = Inr [1, 0, 0]"
    by (simp add: upt3 bindE_def nth_e_def axpy_def numeral_3_eq_3 herm_I_def)
  have n: "norm_c [1, 0, 0] = 1" by (simp add: norm_c_def)
  show ?thesis
    unfolding reconstruct_def by (simp add: herm_st0_def mv bindE_Inr f n)
qed

lemma herm_loop_body: "loop_body herm_env 3 0 herm_mu herm_st0 = Inr herm_st1"
proof -
  have l: "lanczos_complex herm_env v = (herm_I, herm_alpha, herm_beta)" for v
    by (simp add: herm_env_def)
  have g: "eigh herm_env M = (herm_w, herm_T)" for M
    by (simp add: herm_env_def)
  have x: "expm herm_env M = herm_I" for M
    by (simp add: herm_env_def)
  have len: "length herm_alpha = 3" by (simp add: herm_alpha_def)
  have m: "map complex_of_real herm_mu = [1, 0, 0]" by (simp add: herm_mu_def)
  have es: "einsum_ij_j herm_I [1, 0, 0] = Inr [1, 0, 0]"
    by (simp add: einsum_ij_j_def herm_I_def)
  have pd: "project_dipole herm_I [1, 0, 0] 3 = Inr [1, 0, 0]"
    by (simp add: project_dipole_def upt3 bindE_def nth_e_def dot_c_def numeral_3_eq_3 herm_I_def)
  have d: "s_d herm_st0 = [1, 0, 0]" by (simp add: herm_st0_def)
  have dt: "dot_c [1, 0, 0] [1, 0, 0] = Inr 1" by (simp add: dot_c_def)
  show ?thesis
    unfolding loop_body_def herm_reconstruct bindE_Inr l prod.case Let_def herm_Ht_built g
      len herm_time_limit m es pd d dt x
    by (simp add: herm_st0_def herm_st1_def phase_def)
qed

lemma herm_spec_turned:
  "t_lim_spec herm_w herm_T_turned 3 = 2 powr (1 / 2) * (1 / 10 ^ 6) powr (1 / 4)"
proof -
  have "sum_list (map (\<lambda>z. (cmod z)\<^sup>2) [Complex 0 (3 / 5), - (4 / 5), 0]) = 1"
    by (simp add: cmod_power2 power_divide)
  then have n: "norm_c [Complex 0 (3 / 5), - (4 / 5), 0] = 1"
    by (simp add: norm_c_def)
  have h: "(5 / 10 :: real) / 2 = 1 / 4" by simp
  show ?thesis
    by (simp add: t_lim_spec_def herm_T_turned_def herm_w_def n fact_numeral h)
qed

text \<open>The last column of \<open>herm_T_turned\<close> is an eigenvector for the same eigenvalue \<open>2\<close>.\<close>

lemma herm_turned_eigenvector:
  "column herm_T_turned 2 = Inr [Complex 0 (3 / 5), - 4 / 5, 0]"
  "matvec herm_Ht [Complex 0 (3 / 5), - 4 / 5, 0]
     = Inr (map (\<lambda>z. 2 * z) [Complex 0 (3 / 5), - 4 / 5, 0])"
  by (simp_all add: matvec_def herm_Ht_def herm_T_turned_def column_def complex_eq_iff)

lemma herm_time_limit_complex:
  "time_limit herm_T herm_w (1 / 10 ^ 6) 3 = Inr (t_lim_spec herm_w herm_T 3)"
proof (rule time_limit_value)
  have "sum_list (map (\<lambda>z. (cmod z)\<^sup>2) [3 / 5, Complex 0 (4 / 5), 0]) = 1"
    by (simp add: cmod_power2 power_divide)
  then have "norm_c [3 / 5, Complex 0 (4 / 5), 0] = 1"
    by (simp add: norm_c_def)
  then show "norm_c (map2 (\<lambda>x row. complex_of_real (x ^ (3 - 1)) * row ! (3 - 1)) herm_w herm_T) \<noteq> 0"
    by (simp add: herm_T_def herm_w_def)
qed (simp_all add: herm_T_def herm_w_def)

lemma herm_time_limit_turned:
  "time_limit (map (map (\<lambda>z. complex_of_real (Re z))) herm_T_turned) herm_w (1 / 10 ^ 6) 3
     = Inr ((5 / 2) powr (1 / 2) * (1 / 10 ^ 6) powr (1 / 4))"
proof -
  have "sum_list (map (\<lambda>z. (cmod z)\<^sup>2) [0, - (4 / 5), 0]) = (4 / 5)\<^sup>2"
    by (simp add: norm_divide)
  then have n: "norm_c [0, - (4 / 5), 0] = 4 / 5"
    by (simp add: norm_c_def)
  have h: "(5 / 10 :: real) / 2 = 1 / 4" by simp
  show ?thesis
    by (simp add: time_limit_def column_def bindE_def n Let_def herm_T_turned_def herm_w_def
        fact_numeral h)
qed

text \<open>
  C7 does not hold of the code at a restart. \<open>time_limit\<close> itself is the formula on the
  eigenvectors it is given, complex ones too, and the first pass gives it the
  eigenvectors; the restart on line 892 gives it their real parts, \<open>T.real\<close>. At the
  restart below the eigenvector of the largest eigenvalue is \<open>[3/5, 4/5 i, 0]\<close>: the
  formula has the norm \<open>1\<close> and the step \<open>2^(1/2) thr^(1/4)\<close>, the code keeps
  \<open>[3/5, 0, 0]\<close> and takes the step \<open>(10/3)^(1/2) thr^(1/4)\<close>. With the same eigenvector
  in another phase, \<open>[3/5 i, -4/5, 0]\<close>, the formula is the same and the code's step is
  \<open>(5/2)^(1/2) thr^(1/4)\<close>: the step of the code depends on the phase that the
  eigensolver happens to return.
\<close>

theorem restart_step_drops_imaginary_parts:
  "loop_body herm_env 3 0 herm_mu herm_st0 = Inr herm_st1
   \<and> eigh herm_env (s_Ht herm_st1) = (herm_w, herm_T)
   \<and> s_len_tdiag herm_st1 = 3
   \<and> s_t_lim herm_st1 = (10 / 3) powr (1 / 2) * (1 / 10 ^ 6) powr (1 / 4)
   \<and> t_lim_spec herm_w herm_T 3 = 2 powr (1 / 2) * (1 / 10 ^ 6) powr (1 / 4)
   \<and> s_t_lim herm_st1 \<noteq> t_lim_spec herm_w herm_T 3
   \<and> time_limit herm_T herm_w (1 / 10 ^ 6) 3 = Inr (t_lim_spec herm_w herm_T 3)
   \<and> t_lim_spec herm_w herm_T_turned 3 = t_lim_spec herm_w herm_T 3
   \<and> time_limit (map (map (\<lambda>z. complex_of_real (Re z))) herm_T_turned) herm_w (1 / 10 ^ 6) 3
       = Inr ((5 / 2) powr (1 / 2) * (1 / 10 ^ 6) powr (1 / 4))"
proof -
  have "(2::real) powr (1 / 2) < (10 / 3) powr (1 / 2)"
    by (rule powr_less_mono2) simp_all
  moreover have "(0::real) < (1 / 10 ^ 6) powr (1 / 4)" by simp
  ultimately have "t_lim_spec herm_w herm_T 3 < herm_t_lim"
    unfolding herm_spec herm_t_lim_def by (rule mult_strict_right_mono)
  then have "s_t_lim herm_st1 \<noteq> t_lim_spec herm_w herm_T 3"
    by (simp add: herm_st1_def)
  moreover have "s_t_lim herm_st1 = (10 / 3) powr (1 / 2) * (1 / 10 ^ 6) powr (1 / 4)"
    "s_len_tdiag herm_st1 = 3" "eigh herm_env (s_Ht herm_st1) = (herm_w, herm_T)"
    by (simp_all add: herm_st1_def herm_t_lim_def herm_env_def)
  ultimately show ?thesis
    using herm_loop_body herm_spec herm_spec_turned herm_time_limit_complex
      herm_time_limit_turned
    by simp
qed


subsection \<open>The sample at time zero, in exact arithmetic\<close>

text \<open>
  C6 asks for a first sample that is exactly \<open>1.0 + 0i\<close>. In the program that sample is
  a double, the sum of rounded products of a vector scaled by a rounded reciprocal of a
  rounded norm, and whether its last bit is that of \<open>1.0\<close> is a matter of the rounding,
  which the exact numbers of this development do not have. What can be said here is
  the exact counterpart: on the reals the first pass records the sample \<open>1\<close> for a
  dipole vector of non-zero norm, when the first vector of the Krylov basis is the
  normalised seed.
\<close>

lemma sum_list_scaled_squares:
  "sum_list (map (\<lambda>x. x\<^sup>2) (map (\<lambda>x. x * k) (v :: real list)))
   = k\<^sup>2 * sum_list (map (\<lambda>x. x\<^sup>2) v)"
  by (induction v) (simp_all add: algebra_simps)

lemma sum_list_squares_nonneg: "0 \<le> sum_list (map (\<lambda>x. x\<^sup>2) (v :: real list))"
  by (induction v) simp_all

text \<open>After \<open>mu_0[i] *= 1.0/nrm2\<close> with a non-zero norm the seed has norm one.\<close>

lemma normalise_dipole_unit:
  assumes "normalise_dipole v = Some mu"
  shows "sum_list (map (\<lambda>x. x\<^sup>2) mu) = 1" and "norm_r mu = 1"
proof -
  let ?S = "sum_list (map (\<lambda>x. x\<^sup>2) v)"
  from assms have n: "sqrt ?S \<noteq> 0" and mu: "mu = map (\<lambda>x. x * (1 / sqrt ?S)) v"
    by (auto simp: normalise_dipole_def norm_r_def Let_def split: if_splits)
  from n sum_list_squares_nonneg [of v] have pos: "0 < ?S" by (simp add: less_le)
  have "sum_list (map (\<lambda>x. x\<^sup>2) mu) = (1 / sqrt ?S)\<^sup>2 * ?S"
    unfolding mu by (rule sum_list_scaled_squares)
  also have "\<dots> = 1" using pos by (simp add: power_divide)
  finally show "sum_list (map (\<lambda>x. x\<^sup>2) mu) = 1" .
  then show "norm_r mu = 1" by (simp add: norm_r_def)
qed

lemma dot_c_self:
  "dot_c (map complex_of_real v) (map complex_of_real v)
   = Inr (complex_of_real (sum_list (map (\<lambda>x. x\<^sup>2) v)))"
proof -
  have "sum_list (map2 (\<lambda>a b. a * b) (map complex_of_real v) (map complex_of_real v))
      = complex_of_real (sum_list (map (\<lambda>x. x\<^sup>2) v))"
    by (induction v) (simp_all add: power2_eq_square)
  then show ?thesis by (simp add: dot_c_def)
qed

lemma sum_list_against_zeros:
  "sum_list (map2 (\<lambda>a b. a * b) (v :: complex list) (replicate k 0)) = 0"
proof (induction v arbitrary: k)
  case Nil
  then show ?case by simp
next
  case (Cons x v)
  then show ?case by (cases k) simp_all
qed

text \<open>The dot product with the first canonical basis vector is the first entry.\<close>

lemma dot_c_first_basis_vector:
  assumes "dot_c v ((replicate m 0)[0 := 1]) = Inr s" and "0 < m"
  shows "s = v ! 0"
proof -
  from assms(2) obtain k where m: "m = Suc k" by (cases m) simp_all
  from assms(1) have "length v = m" by (simp add: dot_c_def split: if_splits)
  with m obtain x xs where v: "v = x # xs" by (cases v) simp_all
  from assms(1) show ?thesis
    by (simp add: dot_c_def m v sum_list_against_zeros split: if_splits)
qed

text \<open>The first entry of the projected dipole vector is the dot product with \<open>A[0]\<close>.\<close>

lemma project_dipole_first:
  assumes "project_dipole A mu m = Inr v" and "0 < m"
  shows "dot_c (A ! 0) mu = Inr (v ! 0)"
proof -
  let ?f = "\<lambda>k Amu0. bindE (nth_e A k) (\<lambda>A_tmp. bindE (dot_c A_tmp mu) (\<lambda>v. Inr (Amu0[k := v])))"
  from assms(2) have u: "[0..<m] = 0 # [1..<m]" by (simp add: upt_conv_Cons)
  from assms(1) obtain s1 where
    1: "?f 0 (replicate m 0) = Inr s1" and 2: "foldE ?f [1..<m] s1 = Inr v"
    unfolding project_dipole_def u by (auto simp: bindE_Inr_iff)
  from 1 obtain x where x: "dot_c (A ! 0) mu = Inr x" and s1: "s1 = (replicate m 0)[0 := x]"
    by (auto simp: bindE_Inr_iff nth_e_def split: if_splits)
  let ?Q = "\<lambda>s. length s = m \<and> s ! 0 = x"
  have "?Q s1" using s1 assms(2) by simp
  moreover have "?Q b" if "k \<in> set [1..<m]" and "?Q a" and "?f k a = Inr b" for k a b
    using that by (auto simp: bindE_Inr_iff)
  ultimately have "?Q v" using foldE_invariant [OF 2, of ?Q] by blast
  with x show ?thesis by simp
qed

text \<open>On the reals, the sample that the first pass records is \<open>1\<close>.\<close>

lemma first_pass_initial_sample:
  assumes f: "first_pass ev e mu = Inr st0"
    and u: "sum_list (map (\<lambda>x. x\<^sup>2) mu) = 1"
    and k: "krylov_seeded mu (fst (lanczos_real ev mu))"
  shows "s_dipole_corr st0 = [1]"
proof -
  obtain A alpha beta where l: "lanczos_real ev mu = (A, alpha, beta)"
    by (cases "lanczos_real ev mu")
  from u have "norm_r mu = 1" by (simp add: norm_r_def)
  with k l have A: "A \<noteq> []" "A ! 0 = mu" by (simp_all add: krylov_seeded_def)
  from f l obtain Amu0 s where
    p: "project_dipole (map (map complex_of_real) A) (map complex_of_real mu) (s_len_tdiag st0)
          = Inr Amu0"
    and d: "dot_c Amu0 ((replicate (s_len_tdiag st0) 0)[0 := 1]) = Inr s"
    and c: "s_dipole_corr st0 = [s * phase e 0]"
    by (auto simp: first_pass_def bindE_Inr_iff Let_def case_prod_beta)
  from first_pass_Inr(8) [OF f] have m: "0 < s_len_tdiag st0" by simp
  from A have "map (map complex_of_real) A ! 0 = map complex_of_real mu" by simp
  with project_dipole_first [OF p m] dot_c_self [of mu] u have "Amu0 ! 0 = 1" by simp
  with dot_c_first_basis_vector [OF d m] have "s = 1" by simp
  with c show ?thesis by (simp add: phase_def)
qed


end
